theory Spec2Isabelle
  imports Complex_Main "HOL-Library.Sublist"
begin

section \<open>OAV parameters: a model of \<^verbatim>\<open>dodal/devices/oav/oav_parameters.py\<close>\<close>

text \<open>
  The module reads three files (a JSON document of centring parameters, an XML table of
  zoom calibrations and the line-oriented file \<^verbatim>\<open>display.configuration\<close>) into one
  object, \<^verbatim>\<open>OAVParameters\<close>. Every method of the class is a function here that takes
  the object and returns either the exception it raises or the updated object. A method
  that raises returns no object: what it had assigned before the exception is not
  modelled.
\<close>

subsection \<open>Exceptions\<close>

text \<open>
  One constructor for each exception class that a statement of the module can raise.
  \<open>TypeError\<close> is the exception of the builtins \<^verbatim>\<open>float()\<close> and \<^verbatim>\<open>int()\<close>;
  \<open>TypeError_wrong_type name\<close> is the \<^verbatim>\<open>TypeError\<close> raised by hand in
  \<^verbatim>\<open>update\<close>, whose message names the parameter. The last two are the classes
  imported from \<^verbatim>\<open>dodal.devices.oav.oav_errors\<close>.
\<close>

datatype error =
    FileNotFoundError
  | PermissionError
  | IsADirectoryError
  | NotADirectoryError
  | OSError
  | UnicodeDecodeError
  | RecursionError
  | JSONDecodeError
  | ParseError
  | AttributeError
  | KeyError string
  | IndexError
  | TypeError
  | ValueError
  | OverflowError
  | ZeroDivisionError
  | UnboundLocalError
  | AssertionError
  | TypeError_wrong_type string
  | OAVError_ZoomLevelNotFound
  | OAVError_BeamPositionNotFound

text \<open>The exception classes that the module takes from \<^verbatim>\<open>oav_errors\<close>.\<close>

fun oav_error :: "error \<Rightarrow> bool" where
  "oav_error OAVError_ZoomLevelNotFound = True"
| "oav_error OAVError_BeamPositionNotFound = True"
| "oav_error _ = False"

text \<open>Sequencing of two statements: the second runs unless the first has raised.\<close>

fun and_then :: "error + 'a \<Rightarrow> ('a \<Rightarrow> error + 'b) \<Rightarrow> error + 'b" where
  "and_then (Inl e) f = Inl e"
| "and_then (Inr x) f = f x"

subsection \<open>Python values\<close>

text \<open>
  The values that \<^verbatim>\<open>json.load\<close> delivers and that callers pass as arguments. Python's
  \<^verbatim>\<open>int\<close> is unbounded; the type \<open>'f\<close> of floats is a parameter (see below). A
  \<^verbatim>\<open>dict\<close> with string keys is the list of its items; its keys are distinct.
\<close>

datatype 'f pyval =
    PyNone
  | PyBool bool
  | PyInt int
  | PyFloat 'f
  | PyStr string
  | PyList "'f pyval list"
  | PyDict "(string \<times> 'f pyval) list"

type_synonym 'f dict = "(string \<times> 'f pyval) list"

text \<open>\<^verbatim>\<open>isinstance(v, dict)\<close>\<close>

fun is_dict :: "'f pyval \<Rightarrow> bool" where
  "is_dict (PyDict d) = True"
| "is_dict _ = False"

text \<open>
  An element of an XML tree as \<^verbatim>\<open>ElementTree\<close> holds it: its tag, its text (Python's
  \<^verbatim>\<open>None\<close> when the element has none) and its children in document order.
\<close>

datatype xml = Element (el_tag: string) (el_text: "string option") (el_children: "xml list")

subsection \<open>The Python runtime and library, as a parameter\<close>

text \<open>
  The module calls builtins and library functions whose code is not part of the
  repository: the float type with its parsing, printing, comparison and division, the
  parsing of integers, and the JSON and XML parsers. They are the fields of a record,
  and every definition below takes that record as its first argument; nothing is assumed
  about the fields. \<open>None\<close> stands for the exception named beside the field;
  \<^verbatim>\<open>json.load\<close>, which reads the file, decodes it and parses it, gives the exception
  that it raises, whatever its class (\<^verbatim>\<open>JSONDecodeError\<close> for malformed JSON,
  \<^verbatim>\<open>UnicodeDecodeError\<close> for bytes that are not text, \<^verbatim>\<open>RecursionError\<close> for nesting
  that is too deep, and others).
\<close>

record 'f python =
  float_of_str :: "string \<Rightarrow> 'f option"      \<comment> \<open>\<^verbatim>\<open>float(s)\<close>; \<^verbatim>\<open>ValueError\<close>\<close>
  float_of_int :: "int \<Rightarrow> 'f option"         \<comment> \<open>\<^verbatim>\<open>float(i)\<close>; \<^verbatim>\<open>OverflowError\<close>\<close>
  float_literal :: "string \<Rightarrow> 'f"             \<comment> \<open>a float literal of the source text\<close>
  float_isnan :: "'f \<Rightarrow> bool"
  float_isinf :: "'f \<Rightarrow> bool"
  float_trunc :: "'f \<Rightarrow> int"                  \<comment> \<open>\<^verbatim>\<open>int(f)\<close> of a finite float\<close>
  float_eq :: "'f \<Rightarrow> 'f \<Rightarrow> bool"               \<comment> \<open>\<^verbatim>\<open>f == g\<close>\<close>
  float_eq_int :: "'f \<Rightarrow> int \<Rightarrow> bool"          \<comment> \<open>\<^verbatim>\<open>f == i\<close>\<close>
  float_bool :: "'f \<Rightarrow> bool"                   \<comment> \<open>truth value of a float\<close>
  float_truediv :: "'f \<Rightarrow> 'f \<Rightarrow> 'f option"   \<comment> \<open>\<^verbatim>\<open>f / g\<close>; \<^verbatim>\<open>ZeroDivisionError\<close>\<close>
  int_of_str :: "string \<Rightarrow> int option"        \<comment> \<open>\<^verbatim>\<open>int(s)\<close>; \<^verbatim>\<open>ValueError\<close>\<close>
  str_of :: "'f pyval \<Rightarrow> string"               \<comment> \<open>\<^verbatim>\<open>str(v)\<close>\<close>
  json_loads :: "string \<Rightarrow> error + 'f pyval"  \<comment> \<open>\<^verbatim>\<open>json.load\<close>\<close>
  xml_parse :: "string \<Rightarrow> xml option"          \<comment> \<open>\<^verbatim>\<open>et.parse\<close>; \<^verbatim>\<open>ParseError\<close>\<close>

text \<open>The truth value of a Python value, as \<^verbatim>\<open>not zoom\<close> takes it.\<close>

fun truthy :: "'f python \<Rightarrow> 'f pyval \<Rightarrow> bool" where
  "truthy py PyNone = False"
| "truthy py (PyBool b) = b"
| "truthy py (PyInt i) = (i \<noteq> 0)"
| "truthy py (PyFloat f) = float_bool py f"
| "truthy py (PyStr s) = (s \<noteq> [])"
| "truthy py (PyList vs) = (vs \<noteq> [])"
| "truthy py (PyDict d) = (d \<noteq> [])"

text \<open>The builtins \<^verbatim>\<open>float\<close>, \<^verbatim>\<open>int\<close> and \<^verbatim>\<open>str\<close> applied to a value.\<close>

fun py_float :: "'f python \<Rightarrow> 'f pyval \<Rightarrow> error + 'f" where
  "py_float py PyNone = Inl TypeError"
| "py_float py (PyBool b) =
     (case float_of_int py (if b then 1 else 0) of
        None \<Rightarrow> Inl OverflowError | Some f \<Rightarrow> Inr f)"
| "py_float py (PyInt i) =
     (case float_of_int py i of None \<Rightarrow> Inl OverflowError | Some f \<Rightarrow> Inr f)"
| "py_float py (PyFloat f) = Inr f"
| "py_float py (PyStr s) =
     (case float_of_str py s of None \<Rightarrow> Inl ValueError | Some f \<Rightarrow> Inr f)"
| "py_float py (PyList vs) = Inl TypeError"
| "py_float py (PyDict d) = Inl TypeError"

fun py_int :: "'f python \<Rightarrow> 'f pyval \<Rightarrow> error + int" where
  "py_int py PyNone = Inl TypeError"
| "py_int py (PyBool b) = Inr (if b then 1 else 0)"
| "py_int py (PyInt i) = Inr i"
| "py_int py (PyFloat f) =
     (if float_isnan py f then Inl ValueError
      else if float_isinf py f then Inl OverflowError
      else Inr (float_trunc py f))"
| "py_int py (PyStr s) =
     (case int_of_str py s of None \<Rightarrow> Inl ValueError | Some i \<Rightarrow> Inr i)"
| "py_int py (PyList vs) = Inl TypeError"
| "py_int py (PyDict d) = Inl TypeError"

definition py_str :: "'f python \<Rightarrow> 'f pyval \<Rightarrow> error + string" where
  "py_str py v = Inr (str_of py v)"

text \<open>\<^verbatim>\<open>f == v\<close> for a float \<open>f\<close> and any value \<open>v\<close>; a \<^verbatim>\<open>bool\<close> is an \<^verbatim>\<open>int\<close>.\<close>

fun float_equals :: "'f python \<Rightarrow> 'f \<Rightarrow> 'f pyval \<Rightarrow> bool" where
  "float_equals py f (PyFloat g) = float_eq py f g"
| "float_equals py f (PyInt i) = float_eq_int py f i"
| "float_equals py f (PyBool b) = float_eq_int py f (if b then 1 else 0)"
| "float_equals py f _ = False"

subsection \<open>Files\<close>

text \<open>
  The file system lists, for a path, what \<^verbatim>\<open>open\<close> does there: it raises an
  exception, whatever its class (\<^verbatim>\<open>PermissionError\<close> for a file that may not be read,
  \<^verbatim>\<open>IsADirectoryError\<close> for a directory, \<^verbatim>\<open>NotADirectoryError\<close> for a path below
  a file, \<^verbatim>\<open>ValueError\<close> for a path with a NUL character, \<^verbatim>\<open>OSError\<close> for a name
  that is too long, and others), or it delivers the contents of the file. At a path that
  is not listed \<^verbatim>\<open>open\<close> raises \<^verbatim>\<open>FileNotFoundError\<close>.
\<close>

datatype file_entry = Raises error | Contents string

type_synonym filesystem = "(string \<times> file_entry) list"

definition open_read :: "filesystem \<Rightarrow> string \<Rightarrow> error + string" where
  "open_read fs filename =
     (case map_of fs filename of
        None \<Rightarrow> Inl FileNotFoundError
      | Some (Raises e) \<Rightarrow> Inl e
      | Some (Contents c) \<Rightarrow> Inr c)"

text \<open>
  \<^verbatim>\<open>f.readlines()\<close>: the lines of the text, each with its line feed. The text is
  the one that Python's text mode delivers, in which every line ending is a line feed.
\<close>

fun readlines_from :: "string \<Rightarrow> string \<Rightarrow> string list" where
  "readlines_from line [] = (if line = [] then [] else [rev line])"
| "readlines_from line (c # cs) =
     (if c = CHR 0x0A then rev (c # line) # readlines_from [] cs
      else readlines_from (c # line) cs)"

definition readlines :: "string \<Rightarrow> string list" where
  "readlines c = readlines_from [] c"

subsection \<open>The object\<close>

text \<open>
  An attribute that the constructor sets only in one of its method calls is \<open>None\<close>
  until then (for \<open>micronsPerXPixel\<close> and \<open>micronsPerYPixel\<close>, \<open>None\<close> is also
  Python's \<^verbatim>\<open>None\<close>, which \<^verbatim>\<open>load_microns_per_pixel\<close> stores before its loop).
  \<open>active_params\<close> is the list \<^verbatim>\<open>maps\<close> of the \<^verbatim>\<open>ChainMap\<close>, first layer first.
\<close>

record 'f OAVParameters =
  zoom_params_file :: string
  oav_config_json :: string
  display_config :: string
  oav_context :: string
  global_params :: "'f dict"
  context_dicts :: "(string \<times> 'f dict) list"
  active_params :: "'f dict list"
  exposure :: "'f option"
  acquire_period :: "'f option"
  gain :: "'f option"
  canny_edge_upper_threshold :: "'f option"
  canny_edge_lower_threshold :: "'f option"
  minimum_height :: "int option"
  zoom :: "'f option"
  preprocess :: "int option"
  preprocess_K_size :: "int option"
  detection_script_filename :: "string option"
  close_ksize :: "int option"
  min_callback_time :: "'f option"
  direction :: "int option"
  max_tip_distance :: "'f option"
  micronsPerXPixel :: "'f option"
  micronsPerYPixel :: "'f option"
  max_tip_distance_pixels :: "'f option"
  beam_centre_i :: "int option"
  beam_centre_j :: "int option"
  beam_centre_x :: "int option"
  beam_centre_y :: "int option"

subsection \<open>\<^verbatim>\<open>load_json\<close>\<close>

text \<open>
  The comprehension moves every item whose value is not a \<^verbatim>\<open>dict\<close> out of
  \<^verbatim>\<open>raw_params\<close>; what stays are the sub-dictionaries. A document whose top level is
  not an object has no \<^verbatim>\<open>items\<close>.
\<close>

fun subdicts :: "'f dict \<Rightarrow> (string \<times> 'f dict) list" where
  "subdicts [] = []"
| "subdicts ((k, PyDict d) # kvs) = (k, d) # subdicts kvs"
| "subdicts (kv # kvs) = subdicts kvs"

definition load_json ::
  "'f python \<Rightarrow> filesystem \<Rightarrow> string \<Rightarrow> error + ('f dict \<times> (string \<times> 'f dict) list)" where
  "load_json py fs filename =
     and_then (open_read fs filename) (\<lambda>f.
       case json_loads py f of
         Inl e \<Rightarrow> Inl e
       | Inr (PyDict raw_params) \<Rightarrow>
           Inr (filter (\<lambda>(k, v). \<not> is_dict v) raw_params, subdicts raw_params)
       | Inr _ \<Rightarrow> Inl AttributeError)"

subsection \<open>The layered lookup\<close>

text \<open>
  \<^verbatim>\<open>ChainMap.get(name, default)\<close>: the value of the first layer that has the key.
\<close>

fun chain_lookup :: "'f dict list \<Rightarrow> string \<Rightarrow> 'f pyval option" where
  "chain_lookup [] name = None"
| "chain_lookup (m # maps) name =
     (case map_of m name of Some v \<Rightarrow> Some v | None \<Rightarrow> chain_lookup maps name)"

definition chain_get :: "'f dict list \<Rightarrow> string \<Rightarrow> 'f pyval \<Rightarrow> 'f pyval" where
  "chain_get maps name dflt =
     (case chain_lookup maps name of Some v \<Rightarrow> v | None \<Rightarrow> dflt)"

subsection \<open>\<^verbatim>\<open>update_context\<close>\<close>

text \<open>
  \<^verbatim>\<open>self.active_params.maps.pop()\<close> removes the last element of the list of layers
  (\<^verbatim>\<open>list.pop\<close> without an index), and raises \<^verbatim>\<open>IndexError\<close> on an empty list;
  \<^verbatim>\<open>new_child(m)\<close> puts \<open>m\<close> in front of the layers that are left.
\<close>

definition update_context :: "'f OAVParameters \<Rightarrow> string \<Rightarrow> error + 'f OAVParameters" where
  "update_context self ctx =
     (if active_params self = [] then Inl IndexError
      else
        let maps = butlast (active_params self) in
        case map_of (context_dicts self) ctx of
          None \<Rightarrow> Inl (KeyError ctx)
        | Some m \<Rightarrow> Inr (self\<lparr>active_params := m # maps\<rparr>))"

subsection \<open>\<^verbatim>\<open>update_self_from_current_context\<close>\<close>

text \<open>
  The inner function \<^verbatim>\<open>update\<close>. Its \<^verbatim>\<open>param_type\<close> is the builtin that it calls;
  the handler catches \<^verbatim>\<open>AssertionError\<close> and lets every other exception through.
\<close>

definition update ::
  "'f OAVParameters \<Rightarrow> string \<Rightarrow> ('f pyval \<Rightarrow> error + 'a) \<Rightarrow> 'f pyval \<Rightarrow> error + 'a" where
  "update self name param_type dflt =
     (let param = chain_get (active_params self) name dflt in
      case param_type param of
        Inr v \<Rightarrow> Inr v
      | Inl e \<Rightarrow> if e = AssertionError then Inl (TypeError_wrong_type name) else Inl e)"

definition update_self_from_current_context ::
  "'f python \<Rightarrow> 'f OAVParameters \<Rightarrow> error + 'f OAVParameters" where
  "update_self_from_current_context py self =
     and_then (update self ''exposure'' (py_float py) PyNone) (\<lambda>v1.
     and_then (update self ''acqPeriod'' (py_float py) PyNone) (\<lambda>v2.
     and_then (update self ''gain'' (py_float py) PyNone) (\<lambda>v3.
     and_then (update self ''CannyEdgeUpperThreshold'' (py_float py) PyNone) (\<lambda>v4.
     and_then (update self ''CannyEdgeLowerThreshold'' (py_float py)
                 (PyFloat (float_literal py ''5.0''))) (\<lambda>v5.
     and_then (update self ''minheight'' (py_int py) PyNone) (\<lambda>v6.
     and_then (update self ''zoom'' (py_float py) PyNone) (\<lambda>v7.
     and_then (update self ''preprocess'' (py_int py) PyNone) (\<lambda>v8.
     and_then (update self ''preProcessKSize'' (py_int py) PyNone) (\<lambda>v9.
     and_then (update self ''filename'' (py_str py) PyNone) (\<lambda>v10.
     and_then (update self ''close_ksize'' (py_int py) (PyInt 11)) (\<lambda>v11.
     and_then (update self ''min_callback_time'' (py_float py)
                 (PyFloat (float_literal py ''0.08''))) (\<lambda>v12.
     and_then (update self ''direction'' (py_int py) PyNone) (\<lambda>v13.
     and_then (update self ''max_tip_distance'' (py_float py) (PyInt 300)) (\<lambda>v14.
       Inr (self\<lparr>exposure := Some v1, acquire_period := Some v2, gain := Some v3,
                 canny_edge_upper_threshold := Some v4,
                 canny_edge_lower_threshold := Some v5,
                 minimum_height := Some v6, zoom := Some v7, preprocess := Some v8,
                 preprocess_K_size := Some v9,
                 detection_script_filename := Some v10, close_ksize := Some v11,
                 min_callback_time := Some v12, direction := Some v13,
                 max_tip_distance := Some v14\<rparr>)))))))))))))))"

subsection \<open>\<^verbatim>\<open>load_microns_per_pixel\<close>\<close>

text \<open>
  \<^verbatim>\<open>et.parse(filename)\<close>, then \<^verbatim>\<open>root.findall(".//zoomLevel")\<close>: the elements
  below the root that have the tag, in document order; \<^verbatim>\<open>node.find(name)\<close>: the first
  child with the tag, or \<^verbatim>\<open>None\<close>.
\<close>

definition et_parse :: "'f python \<Rightarrow> filesystem \<Rightarrow> string \<Rightarrow> error + xml" where
  "et_parse py fs filename =
     and_then (open_read fs filename) (\<lambda>c.
       case xml_parse py c of None \<Rightarrow> Inl ParseError | Some tree_root \<Rightarrow> Inr tree_root)"

fun descendants :: "xml \<Rightarrow> xml list" where
  "descendants (Element t x cs) = concat (map (\<lambda>c. c # descendants c) cs)"

definition findall_below :: "xml \<Rightarrow> string \<Rightarrow> xml list" where
  "findall_below tree_root name = filter (\<lambda>n. el_tag n = name) (descendants tree_root)"

definition xml_find :: "xml \<Rightarrow> string \<Rightarrow> xml option" where
  "xml_find node name = List.find (\<lambda>c. el_tag c = name) (el_children node)"

text \<open>
  \<^verbatim>\<open>float(node.find(name).text)\<close>: \<^verbatim>\<open>AttributeError\<close> when there is no such child,
  and \<^verbatim>\<open>float\<close> of \<^verbatim>\<open>None\<close> or of the text otherwise.
\<close>

definition float_of_child :: "'f python \<Rightarrow> xml \<Rightarrow> string \<Rightarrow> error + 'f" where
  "float_of_child py node name =
     (case xml_find node name of
        None \<Rightarrow> Inl AttributeError
      | Some el \<Rightarrow>
          py_float py (case el_text el of None \<Rightarrow> PyNone | Some t \<Rightarrow> PyStr t))"

text \<open>The loop over \<^verbatim>\<open>levels\<close>. It has no \<^verbatim>\<open>break\<close>: every node is visited.\<close>

fun scan_levels ::
  "'f python \<Rightarrow> 'f pyval \<Rightarrow> xml list \<Rightarrow> 'f OAVParameters \<Rightarrow> error + 'f OAVParameters" where
  "scan_levels py zoom_level [] self = Inr self"
| "scan_levels py zoom_level (node # levels) self =
     and_then (float_of_child py node ''level'') (\<lambda>level.
       if float_equals py level zoom_level then
         and_then (float_of_child py node ''micronsPerXPixel'') (\<lambda>x.
         and_then (float_of_child py node ''micronsPerYPixel'') (\<lambda>y.
           scan_levels py zoom_level levels
             (self\<lparr>micronsPerXPixel := Some x, micronsPerYPixel := Some y\<rparr>)))
       else scan_levels py zoom_level levels self)"

definition load_microns_per_pixel ::
  "'f python \<Rightarrow> filesystem \<Rightarrow> 'f OAVParameters \<Rightarrow> 'f pyval \<Rightarrow> error + 'f OAVParameters" where
  "load_microns_per_pixel py fs self zoom_arg =
     and_then (if \<not> truthy py zoom_arg
               then (case zoom self of None \<Rightarrow> Inl AttributeError
                     | Some z \<Rightarrow> Inr (PyFloat z))
               else Inr zoom_arg) (\<lambda>zoom_level.
     and_then (et_parse py fs (zoom_params_file self)) (\<lambda>tree_root.
     and_then (scan_levels py zoom_level (findall_below tree_root ''zoomLevel'')
                 (self\<lparr>micronsPerXPixel := None, micronsPerYPixel := None\<rparr>)) (\<lambda>self.
       case micronsPerXPixel self of
         None \<Rightarrow> Inl OAVError_ZoomLevelNotFound
       | Some mx \<Rightarrow>
          (case micronsPerYPixel self of
             None \<Rightarrow> Inl OAVError_ZoomLevelNotFound
           | Some my \<Rightarrow>
              (case max_tip_distance self of
                 None \<Rightarrow> Inl AttributeError
               | Some d \<Rightarrow>
                  (case float_truediv py d mx of
                     None \<Rightarrow> Inl ZeroDivisionError
                   | Some q \<Rightarrow> Inr (self\<lparr>max_tip_distance_pixels := Some q\<rparr>)))))))"

text \<open>
  Two notions for the statements about the loop. A node matches the requested zoom when
  its level reads as a float that equals it. A node is readable when the loop body runs
  on it without an exception: its level reads as a float and, if it matches, so do its
  two scales.
\<close>

definition level_matches :: "'f python \<Rightarrow> 'f pyval \<Rightarrow> xml \<Rightarrow> bool" where
  "level_matches py zoom_level node =
     (case float_of_child py node ''level'' of
        Inl e \<Rightarrow> False
      | Inr level \<Rightarrow> float_equals py level zoom_level)"

definition level_readable :: "'f python \<Rightarrow> 'f pyval \<Rightarrow> xml \<Rightarrow> bool" where
  "level_readable py zoom_level node =
     (case float_of_child py node ''level'' of
        Inl e \<Rightarrow> False
      | Inr level \<Rightarrow>
          if float_equals py level zoom_level
          then (case float_of_child py node ''micronsPerXPixel'' of
                  Inl e \<Rightarrow> False
                | Inr x \<Rightarrow>
                    (case float_of_child py node ''micronsPerYPixel'' of
                       Inl e \<Rightarrow> False
                     | Inr y \<Rightarrow> True))
          else True)"

subsection \<open>\<^verbatim>\<open>_extract_beam_position\<close>\<close>

text \<open>
  A local variable of the method is unbound until an assignment runs. The loop assigns
  \<^verbatim>\<open>crosshair_x_line\<close> and \<^verbatim>\<open>crosshair_y_line\<close> only in the branch that breaks;
  \<^verbatim>\<open>file_lines[i + 1]\<close> beyond the last line raises \<^verbatim>\<open>IndexError\<close>. A bound value is
  \<open>Some\<close> string; \<open>None\<close> is Python's \<^verbatim>\<open>None\<close>, which the test after the loop asks for.
\<close>

datatype 'a local_var = Unbound | Bound 'a

function scan_lines ::
  "'f python \<Rightarrow> 'f OAVParameters \<Rightarrow> string list \<Rightarrow> nat \<Rightarrow>
     error + (string option local_var \<times> string option local_var)" where
  "scan_lines py self file_lines i =
     (if i < length file_lines then
        (case zoom self of
           None \<Rightarrow> Inl AttributeError
         | Some z \<Rightarrow>
            if prefix (''zoomLevel = '' @ str_of py (PyFloat z)) (file_lines ! i) then
              (if i + 2 < length file_lines
               then Inr (Bound (Some (file_lines ! (i + 1))),
                         Bound (Some (file_lines ! (i + 2))))
               else Inl IndexError)
            else scan_lines py self file_lines (i + 1))
      else Inr (Unbound, Unbound))"
  by pat_completeness auto
termination
  by (relation "measure (\<lambda>(py, self, file_lines, i). length file_lines - i)") auto

declare scan_lines.simps [simp del]

text \<open>\<^verbatim>\<open>s.split(sep)\<close> for a separator that is not empty.\<close>

fun split_from :: "string \<Rightarrow> string \<Rightarrow> string \<Rightarrow> string list" where
  "split_from sep tok [] = [rev tok]"
| "split_from sep tok (c # cs) =
     (if sep \<noteq> [] \<and> prefix sep (c # cs)
      then rev tok # split_from sep [] (drop (length sep) (c # cs))
      else split_from sep (c # tok) cs)"

definition py_split :: "string \<Rightarrow> string \<Rightarrow> string list" where
  "py_split s sep = split_from sep [] s"

text \<open>\<^verbatim>\<open>int(line.split(" = ")[1])\<close>\<close>

definition int_of_second :: "'f python \<Rightarrow> string \<Rightarrow> error + int" where
  "int_of_second py line =
     (case py_split line '' = '' of
        _ # t # _ \<Rightarrow> py_int py (PyStr t)
      | _ \<Rightarrow> Inl IndexError)"

definition extract_beam_position ::
  "'f python \<Rightarrow> filesystem \<Rightarrow> 'f OAVParameters \<Rightarrow> error + 'f OAVParameters" where
  "extract_beam_position py fs self =
     and_then (open_read fs (display_config self)) (\<lambda>f.
     and_then (scan_lines py self (readlines f) 0) (\<lambda>(crosshair_x_line, crosshair_y_line).
       case crosshair_x_line of
         Unbound \<Rightarrow> Inl UnboundLocalError
       | Bound None \<Rightarrow> Inl OAVError_BeamPositionNotFound
       | Bound (Some x_line) \<Rightarrow>
          (case crosshair_y_line of
             Unbound \<Rightarrow> Inl UnboundLocalError
           | Bound None \<Rightarrow> Inl OAVError_BeamPositionNotFound
           | Bound (Some y_line) \<Rightarrow>
               and_then (int_of_second py x_line) (\<lambda>i.
               and_then (int_of_second py y_line) (\<lambda>j.
               and_then (int_of_second py x_line) (\<lambda>x.
               and_then (int_of_second py y_line) (\<lambda>y.
                 Inr (self\<lparr>beam_centre_i := Some i, beam_centre_j := Some j,
                           beam_centre_x := Some x, beam_centre_y := Some y\<rparr>))))))))"

subsection \<open>\<^verbatim>\<open>calculate_beam_distance\<close>\<close>

text \<open>
  The method has no assignment; it returns the pair, and the object is returned beside it
  as it was. Reading an attribute that no call has set raises \<^verbatim>\<open>AttributeError\<close>.
\<close>

definition calculate_beam_distance ::
  "'f OAVParameters \<Rightarrow> int \<Rightarrow> int \<Rightarrow> error + ((int \<times> int) \<times> 'f OAVParameters)" where
  "calculate_beam_distance self horizontal_pixels vertical_pixels =
     (case beam_centre_i self of
        None \<Rightarrow> Inl AttributeError
      | Some i \<Rightarrow>
         (case beam_centre_j self of
            None \<Rightarrow> Inl AttributeError
          | Some j \<Rightarrow> Inr ((i - horizontal_pixels, j - vertical_pixels), self)))"

subsection \<open>The constructor\<close>

definition init ::
  "'f python \<Rightarrow> filesystem \<Rightarrow> string \<Rightarrow> string \<Rightarrow> string \<Rightarrow> string \<Rightarrow>
     error + 'f OAVParameters" where
  "init py fs ctx zoom_params_file_arg oav_config_json_arg display_config_arg =
     and_then (load_json py fs oav_config_json_arg) (\<lambda>(globals, contexts).
       case map_of contexts ctx of
         None \<Rightarrow> Inl (KeyError ctx)
       | Some m \<Rightarrow>
          and_then (update_self_from_current_context py
            \<lparr>zoom_params_file = zoom_params_file_arg,
             oav_config_json = oav_config_json_arg,
             display_config = display_config_arg,
             oav_context = ctx,
             global_params = globals,
             context_dicts = contexts,
             active_params = [m, globals],
             exposure = None, acquire_period = None, gain = None,
             canny_edge_upper_threshold = None, canny_edge_lower_threshold = None,
             minimum_height = None, zoom = None, preprocess = None,
             preprocess_K_size = None, detection_script_filename = None,
             close_ksize = None, min_callback_time = None, direction = None,
             max_tip_distance = None, micronsPerXPixel = None, micronsPerYPixel = None,
             max_tip_distance_pixels = None, beam_centre_i = None, beam_centre_j = None,
             beam_centre_x = None, beam_centre_y = None\<rparr>) (\<lambda>self.
          and_then (load_microns_per_pixel py fs self PyNone) (\<lambda>self.
          extract_beam_position py fs self)))"

section \<open>An interpretation of the runtime, for the examples\<close>

text \<open>
  The examples below need the parameters at concrete values. \<open>exact_python\<close> takes a
  float to be the rational number it denotes: a decimal text is read exactly, equality
  and division are those of the rationals, and division by zero is the exception. On
  the numbers of the examples (such as 0.5, 2.5, 5.0, 300 and 600), which binary floats
  hold exactly, this is what CPython computes. The two parsers are tables of the example
  documents: the JSON table gives, for a text, the value it denotes or the exception
  that \<^verbatim>\<open>json.load\<close> raises on it; a text that is in neither table is malformed.
\<close>

definition is_space :: "char \<Rightarrow> bool" where
  "is_space c = (c = CHR '' '' \<or> c = CHR 0x09 \<or> c = CHR 0x0A \<or> c = CHR 0x0D)"

definition strip :: "string \<Rightarrow> string" where
  "strip s = rev (dropWhile is_space (rev (dropWhile is_space s)))"

fun digits_value :: "string \<Rightarrow> nat \<Rightarrow> nat option" where
  "digits_value [] n = Some n"
| "digits_value (c # cs) n =
     (if 48 \<le> (of_char c :: nat) \<and> (of_char c :: nat) \<le> 57
      then digits_value cs (10 * n + (of_char c - 48)) else None)"

definition sign_and_body :: "string \<Rightarrow> bool \<times> string" where
  "sign_and_body s =
     (case s of
        [] \<Rightarrow> (False, [])
      | c # cs \<Rightarrow> if c = CHR ''-'' then (True, cs)
                  else if c = CHR ''+'' then (False, cs) else (False, s))"

definition decimal_int :: "string \<Rightarrow> int option" where
  "decimal_int s =
     (let (neg, body) = sign_and_body (strip s) in
      if body = [] then None
      else case digits_value body 0 of
             None \<Rightarrow> None
           | Some n \<Rightarrow> Some (if neg then - int n else int n))"

definition decimal_rat :: "string \<Rightarrow> rat option" where
  "decimal_rat s =
     (let (neg, body) = sign_and_body (strip s);
          ip = takeWhile (\<lambda>c. c \<noteq> CHR ''.'') body;
          rest = dropWhile (\<lambda>c. c \<noteq> CHR ''.'') body;
          fp = (if rest = [] then [] else tl rest)
      in if ip = [] \<and> fp = [] then None
         else case (digits_value ip 0, digits_value fp 0) of
                (Some a, Some b) \<Rightarrow>
                  Some ((if neg then - 1 else 1) * (of_nat a + of_nat b / 10 ^ length fp))
              | _ \<Rightarrow> None)"

text \<open>
  Printing: the digits of a natural number, and of a fraction up to a bound. No example
  prints a list or a dict; \<open>exact_str_of\<close> gives a fixed text for them.
\<close>

fun nat_digits :: "nat \<Rightarrow> nat \<Rightarrow> string \<Rightarrow> string" where
  "nat_digits 0 n acc = acc"
| "nat_digits (Suc k) n acc =
     (if n < 10 then char_of (48 + n) # acc
      else nat_digits k (n div 10) (char_of (48 + n mod 10) # acc))"

definition show_nat :: "nat \<Rightarrow> string" where
  "show_nat n = nat_digits (Suc n) n []"

definition show_int :: "int \<Rightarrow> string" where
  "show_int i = (if i < 0 then ''-'' @ show_nat (nat (- i)) else show_nat (nat i))"

fun frac_digits :: "nat \<Rightarrow> rat \<Rightarrow> string" where
  "frac_digits 0 x = []"
| "frac_digits (Suc k) x =
     (if x = 0 then []
      else char_of (48 + nat \<lfloor>10 * x\<rfloor>) # frac_digits k (10 * x - of_int \<lfloor>10 * x\<rfloor>))"

definition show_rat :: "rat \<Rightarrow> string" where
  "show_rat r =
     (let a = \<bar>r\<bar>; whole = \<lfloor>a\<rfloor>; part = a - of_int whole
      in (if r < 0 then ''-'' else []) @ show_nat (nat whole) @ ''.''
         @ (if part = 0 then ''0'' else frac_digits 17 part))"

fun exact_str_of :: "rat pyval \<Rightarrow> string" where
  "exact_str_of PyNone = ''None''"
| "exact_str_of (PyBool b) = (if b then ''True'' else ''False'')"
| "exact_str_of (PyInt i) = show_int i"
| "exact_str_of (PyFloat r) = show_rat r"
| "exact_str_of (PyStr s) = s"
| "exact_str_of (PyList vs) = ''[...]''"
| "exact_str_of (PyDict d) = ''{...}''"

subsection \<open>The example documents\<close>

definition example_json_text :: string where
  \<open>example_json_text =
     ''{"exposure": 0.075, "acqPeriod": 0.05, "gain": 1.0, ''
     @ ''"minheight": 70, "zoom": 1.0, "preprocess": 10, "preProcessKSize": 21, ''
     @ ''"CannyEdgeUpperThreshold": 20.0, "filename": "detect.py", "direction": 0, ''
     @ ''"loopCentring": {"zoom": 5.0, "direction": 1}, ''
     @ ''"xrayCentring": {"exposure": 0.5}}''\<close>

definition example_json_value :: "rat pyval" where
  "example_json_value = PyDict
     [(''exposure'', PyFloat (3 / 40)), (''acqPeriod'', PyFloat (1 / 20)),
      (''gain'', PyFloat 1), (''minheight'', PyInt 70), (''zoom'', PyFloat 1),
      (''preprocess'', PyInt 10), (''preProcessKSize'', PyInt 21),
      (''CannyEdgeUpperThreshold'', PyFloat 20), (''filename'', PyStr ''detect.py''),
      (''direction'', PyInt 0),
      (''loopCentring'', PyDict [(''zoom'', PyFloat 5), (''direction'', PyInt 1)]),
      (''xrayCentring'', PyDict [(''exposure'', PyFloat (1 / 2))])]"

definition wrong_type_json_text :: string where
  \<open>wrong_type_json_text = ''{"exposure": "abc", "loopCentring": {}}''\<close>

definition wrong_type_json_value :: "rat pyval" where
  "wrong_type_json_value =
     PyDict [(''exposure'', PyStr ''abc''), (''loopCentring'', PyDict [])]"

definition zoom_level_text :: "string \<Rightarrow> string \<Rightarrow> string \<Rightarrow> string" where
  "zoom_level_text l x y =
     ''<zoomLevel><level>'' @ l @ ''</level><micronsPerXPixel>'' @ x
     @ ''</micronsPerXPixel><micronsPerYPixel>'' @ y @ ''</micronsPerYPixel></zoomLevel>''"

definition zoom_level_node :: "string \<Rightarrow> string \<Rightarrow> string \<Rightarrow> xml" where
  "zoom_level_node l x y =
     Element ''zoomLevel'' None
       [Element ''level'' (Some l) [], Element ''micronsPerXPixel'' (Some x) [],
        Element ''micronsPerYPixel'' (Some y) []]"

definition zoom_levels_text :: "(string \<times> string \<times> string) list \<Rightarrow> string" where
  "zoom_levels_text rows =
     ''<zoomLevels>'' @ concat (map (\<lambda>(l, x, y). zoom_level_text l x y) rows)
     @ ''</zoomLevels>''"

definition zoom_levels_tree :: "(string \<times> string \<times> string) list \<Rightarrow> xml" where
  "zoom_levels_tree rows =
     Element ''zoomLevels'' None (map (\<lambda>(l, x, y). zoom_level_node l x y) rows)"

text \<open>
  Three calibration tables: the one of the specification, one that lists level 5.0
  twice, and one with an entry for level 0.0.
\<close>

definition example_rows :: "(string \<times> string \<times> string) list" where
  "example_rows = [(''1.0'', ''2.5'', ''2.5''), (''5.0'', ''0.5'', ''0.5'')]"

definition twice_rows :: "(string \<times> string \<times> string) list" where
  "twice_rows = [(''5.0'', ''0.5'', ''0.5''), (''1.0'', ''2.5'', ''2.5''),
                 (''5.0'', ''0.25'', ''0.125'')]"

definition zero_rows :: "(string \<times> string \<times> string) list" where
  "zero_rows = [(''0.0'', ''4.0'', ''4.0''), (''5.0'', ''0.5'', ''0.5'')]"

text \<open>
  Two documents on which \<^verbatim>\<open>json.load\<close> raises: one that ends in the middle of an
  object, and one with the byte E9 (a Latin-1 letter), which is not UTF-8.
\<close>

definition broken_json_text :: string where
  \<open>broken_json_text = ''{"exposure": ''\<close>

definition latin1_json_text :: string where
  \<open>latin1_json_text = ''{"filename": "caf'' @ [CHR 0xE9] @ ''.py"}''\<close>

definition example_json_table :: "(string \<times> (error + rat pyval)) list" where
  "example_json_table =
     [(example_json_text, Inr example_json_value),
      (wrong_type_json_text, Inr wrong_type_json_value),
      (broken_json_text, Inl JSONDecodeError),
      (latin1_json_text, Inl UnicodeDecodeError)]"

definition exact_python :: "rat python" where
  "exact_python =
     \<lparr>float_of_str = decimal_rat,
      float_of_int = (\<lambda>i. Some (of_int i)),
      float_literal = (\<lambda>s. case decimal_rat s of None \<Rightarrow> 0 | Some r \<Rightarrow> r),
      float_isnan = (\<lambda>r. False),
      float_isinf = (\<lambda>r. False),
      float_trunc = (\<lambda>r. if r < 0 then \<lceil>r\<rceil> else \<lfloor>r\<rfloor>),
      float_eq = (\<lambda>r q. r = q),
      float_eq_int = (\<lambda>r i. r = of_int i),
      float_bool = (\<lambda>r. r \<noteq> 0),
      float_truediv = (\<lambda>r q. if q = 0 then None else Some (r / q)),
      int_of_str = decimal_int,
      str_of = exact_str_of,
      json_loads = (\<lambda>t. case map_of example_json_table t of
                           None \<Rightarrow> Inl JSONDecodeError | Some r \<Rightarrow> r),
      xml_parse = map_of (map (\<lambda>rows. (zoom_levels_text rows, zoom_levels_tree rows))
                            [example_rows, twice_rows, zero_rows])\<rparr>"

text \<open>
  The file system of the examples. \<^verbatim>\<open>display.configuration\<close> has the layout that the
  beamline software writes; in \<^verbatim>\<open>display.longer\<close> a line for level 5.05 comes before
  the line for level 5.0.
\<close>

definition example_display_text :: string where
  "example_display_text =
     ''zoomLevel = 1.0'' @ [CHR 0x0A] @ ''crosshairX = 477'' @ [CHR 0x0A]
     @ ''crosshairY = 359'' @ [CHR 0x0A] @ ''zoomLevel = 5.0'' @ [CHR 0x0A]
     @ ''crosshairX = 517'' @ [CHR 0x0A] @ ''crosshairY = 350'' @ [CHR 0x0A]"

definition longer_display_text :: string where
  "longer_display_text =
     ''zoomLevel = 5.05'' @ [CHR 0x0A] @ ''crosshairX = 11'' @ [CHR 0x0A]
     @ ''crosshairY = 12'' @ [CHR 0x0A] @ ''zoomLevel = 5.0'' @ [CHR 0x0A]
     @ ''crosshairX = 517'' @ [CHR 0x0A] @ ''crosshairY = 350'' @ [CHR 0x0A]"

definition other_display_text :: string where
  "other_display_text =
     ''zoomLevel = 1.0'' @ [CHR 0x0A] @ ''crosshairX = 477'' @ [CHR 0x0A]
     @ ''crosshairY = 359'' @ [CHR 0x0A]"

definition example_fs :: filesystem where
  "example_fs =
     [(''OAVCentring.json'', Contents example_json_text),
      (''wrong_type.json'', Contents wrong_type_json_text),
      (''broken.json'', Contents broken_json_text),
      (''latin1.json'', Contents latin1_json_text),
      (''secret.json'', Raises PermissionError),
      (''config'', Raises IsADirectoryError),
      (''OAVCentring.json/x'', Raises NotADirectoryError),
      (''jCameraManZoomLevels.xml'', Contents (zoom_levels_text example_rows)),
      (''twice.xml'', Contents (zoom_levels_text twice_rows)),
      (''zero.xml'', Contents (zoom_levels_text zero_rows)),
      (''display.configuration'', Contents example_display_text),
      (''display.longer'', Contents longer_display_text),
      (''display.other'', Contents other_display_text)]"

text \<open>
  The object that the constructor builds from these files for the context
  \<^verbatim>\<open>loopCentring\<close> (lemma \<open>init_example\<close> below).
\<close>

definition example_object :: "rat OAVParameters" where
  "example_object =
     \<lparr>zoom_params_file = ''jCameraManZoomLevels.xml'',
      oav_config_json = ''OAVCentring.json'',
      display_config = ''display.configuration'',
      oav_context = ''loopCentring'',
      global_params =
        [(''exposure'', PyFloat (3 / 40)), (''acqPeriod'', PyFloat (1 / 20)),
         (''gain'', PyFloat 1), (''minheight'', PyInt 70), (''zoom'', PyFloat 1),
         (''preprocess'', PyInt 10), (''preProcessKSize'', PyInt 21),
         (''CannyEdgeUpperThreshold'', PyFloat 20), (''filename'', PyStr ''detect.py''),
         (''direction'', PyInt 0)],
      context_dicts =
        [(''loopCentring'', [(''zoom'', PyFloat 5), (''direction'', PyInt 1)]),
         (''xrayCentring'', [(''exposure'', PyFloat (1 / 2))])],
      active_params =
        [[(''zoom'', PyFloat 5), (''direction'', PyInt 1)],
         [(''exposure'', PyFloat (3 / 40)), (''acqPeriod'', PyFloat (1 / 20)),
          (''gain'', PyFloat 1), (''minheight'', PyInt 70), (''zoom'', PyFloat 1),
          (''preprocess'', PyInt 10), (''preProcessKSize'', PyInt 21),
          (''CannyEdgeUpperThreshold'', PyFloat 20), (''filename'', PyStr ''detect.py''),
          (''direction'', PyInt 0)]],
      exposure = Some (3 / 40), acquire_period = Some (1 / 20), gain = Some 1,
      canny_edge_upper_threshold = Some 20, canny_edge_lower_threshold = Some 5,
      minimum_height = Some 70, zoom = Some 5, preprocess = Some 10,
      preprocess_K_size = Some 21, detection_script_filename = Some ''detect.py'',
      close_ksize = Some 11, min_callback_time = Some (2 / 25), direction = Some 1,
      max_tip_distance = Some 300, micronsPerXPixel = Some (1 / 2),
      micronsPerYPixel = Some (1 / 2), max_tip_distance_pixels = Some 600,
      beam_centre_i = Some 517, beam_centre_j = Some 350,
      beam_centre_x = Some 517, beam_centre_y = Some 350\<rparr>"

text \<open>The same object before any scale is loaded, with a stored zoom of 1.0.\<close>

definition example_unscaled :: "rat OAVParameters" where
  "example_unscaled =
     example_object\<lparr>zoom := Some 1, micronsPerXPixel := None, micronsPerYPixel := None,
                    max_tip_distance_pixels := None\<rparr>"

text \<open>
  The example object before its beam centre is set, and the example object on the table
  \<^verbatim>\<open>zero.xml\<close> before any scale is loaded (its stored zoom is 5.0).
\<close>

definition example_uncentred :: "rat OAVParameters" where
  "example_uncentred =
     example_object\<lparr>beam_centre_i := None, beam_centre_j := None,
                    beam_centre_x := None, beam_centre_y := None\<rparr>"

definition example_zero_table :: "rat OAVParameters" where
  "example_zero_table =
     example_object\<lparr>zoom_params_file := ''zero.xml'', micronsPerXPixel := None,
                    micronsPerYPixel := None, max_tip_distance_pixels := None\<rparr>"

section \<open>Properties\<close>

subsection \<open>Basic facts\<close>

lemma and_then_Inr_iff:
  "and_then m f = Inr y \<longleftrightarrow> (\<exists>x. m = Inr x \<and> f x = Inr y)"
  by (cases m) auto

text \<open>The constructor runs on the example files and builds \<open>example_object\<close>.\<close>

lemma init_example:
  "init exact_python example_fs ''loopCentring'' ''jCameraManZoomLevels.xml''
     ''OAVCentring.json'' ''display.configuration'' = Inr example_object"
  by code_simp

subsection \<open>Switching the context\<close>

text \<open>
  On an object as the constructor leaves it, with the context layer \<open>c\<close> above the
  global layer \<open>g\<close>, \<^verbatim>\<open>update_context\<close> removes \<open>g\<close> and keeps \<open>c\<close> below the new
  layer.
\<close>

lemma update_context_two_layers:
  assumes "active_params self = [c, g]" and "map_of (context_dicts self) ctx = Some m"
  shows "update_context self ctx = Inr (self\<lparr>active_params := [m, c]\<rparr>)"
  using assms by (simp add: update_context_def)

text \<open>
  Claim C1 says that \<^verbatim>\<open>update_context\<close> replaces the top layer only and keeps the
  global parameters as the fallback, so that every declared field then takes the new
  context's value or else the global one. The code does otherwise: on the example
  object, whose layers are \<^verbatim>\<open>loopCentring\<close> over the global parameters, switching to
  \<^verbatim>\<open>xrayCentring\<close> leaves \<^verbatim>\<open>xrayCentring\<close> over \<^verbatim>\<open>loopCentring\<close>. The lookup of
  \<^verbatim>\<open>zoom\<close>, which \<^verbatim>\<open>xrayCentring\<close> does not set, then gives 5.0 from the old context
  where the layering of the claim gives the global 1.0, and setting the fields raises
  \<^verbatim>\<open>TypeError\<close>, because \<^verbatim>\<open>acqPeriod\<close> is in the global parameters only.
\<close>

theorem update_context_drops_global_layer:
  "active_params example_object
     = [[(''zoom'', PyFloat 5), (''direction'', PyInt 1)], global_params example_object]
   \<and> update_context example_object ''xrayCentring''
     = Inr (example_object\<lparr>active_params :=
              [[(''exposure'', PyFloat (1 / 2))],
               [(''zoom'', PyFloat 5), (''direction'', PyInt 1)]]\<rparr>)
   \<and> chain_lookup [[(''exposure'', PyFloat (1 / 2))],
                    [(''zoom'', PyFloat (5 :: rat)), (''direction'', PyInt 1)]] ''zoom''
     = Some (PyFloat 5)
   \<and> chain_lookup [[(''exposure'', PyFloat (1 / 2))], global_params example_object] ''zoom''
     = Some (PyFloat 1)
   \<and> update_self_from_current_context exact_python
        (example_object\<lparr>active_params :=
              [[(''exposure'', PyFloat (1 / 2))],
               [(''zoom'', PyFloat 5), (''direction'', PyInt 1)]]\<rparr>)
     = Inl TypeError"
  by code_simp

subsection \<open>Setting the fields\<close>

text \<open>
  None of the three builtins raises \<^verbatim>\<open>AssertionError\<close>, so the handler of
  \<^verbatim>\<open>update\<close> never runs: \<^verbatim>\<open>update\<close> raises what the builtin raises.
\<close>

lemma py_float_not_AssertionError: "py_float py v \<noteq> Inl AssertionError"
  by (cases v) (auto split: option.splits)

lemma py_int_not_AssertionError: "py_int py v \<noteq> Inl AssertionError"
  by (cases v) (auto split: option.splits)

lemma py_str_not_AssertionError: "py_str py v \<noteq> Inl AssertionError"
  by (simp add: py_str_def)

lemma update_passes_error:
  assumes "\<And>v. param_type v \<noteq> Inl AssertionError"
  shows "update self name param_type dflt
           = param_type (chain_get (active_params self) name dflt)"
  using assms [of "chain_get (active_params self) name dflt"]
  by (simp add: update_def split: sum.splits)

text \<open>
  So no input makes \<^verbatim>\<open>update_self_from_current_context\<close> raise the \<^verbatim>\<open>TypeError\<close>
  whose message names the parameter.
\<close>

lemma py_float_not_wrong_type: "py_float py v \<noteq> Inl (TypeError_wrong_type name)"
  by (cases v) (auto split: option.splits)

lemma py_int_not_wrong_type: "py_int py v \<noteq> Inl (TypeError_wrong_type name)"
  by (cases v) (auto split: option.splits)

lemma update_float_not_wrong_type:
  "update self n (py_float py) dflt \<noteq> Inl (TypeError_wrong_type name)"
  by (simp add: update_passes_error [OF py_float_not_AssertionError] py_float_not_wrong_type)

lemma update_int_not_wrong_type:
  "update self n (py_int py) dflt \<noteq> Inl (TypeError_wrong_type name)"
  by (simp add: update_passes_error [OF py_int_not_AssertionError] py_int_not_wrong_type)

lemma update_str_not_wrong_type:
  "update self n (py_str py) dflt \<noteq> Inl (TypeError_wrong_type name)"
  by (simp add: update_passes_error [OF py_str_not_AssertionError] py_str_def)

lemma and_then_not_raised:
  assumes "m \<noteq> Inl e" and "\<And>x. f x \<noteq> Inl e"
  shows "and_then m f \<noteq> Inl e"
  using assms by (cases m) auto

lemma update_self_never_names_the_field:
  "update_self_from_current_context py self \<noteq> Inl (TypeError_wrong_type name)"
  unfolding update_self_from_current_context_def
  by (intro and_then_not_raised update_float_not_wrong_type update_int_not_wrong_type
        update_str_not_wrong_type) simp

text \<open>
  Claim C2 says that a value that is present but cannot be coerced to the declared type
  makes \<^verbatim>\<open>update_self_from_current_context\<close> raise a \<^verbatim>\<open>TypeError\<close> that names the
  field. The code does otherwise: with \<^verbatim>\<open>"exposure": "abc"\<close> in the JSON file the
  lookup finds the string, \<^verbatim>\<open>update\<close> for \<^verbatim>\<open>exposure\<close> raises the
  \<^verbatim>\<open>ValueError\<close> of \<^verbatim>\<open>float\<close>, and so does the constructor.
\<close>

theorem wrong_type_raises_ValueError:
  "chain_lookup [[], [(''exposure'', PyStr ''abc'' :: rat pyval)]] ''exposure''
     = Some (PyStr ''abc'')
   \<and> update \<lparr>zoom_params_file = ''jCameraManZoomLevels.xml'',
             oav_config_json = ''wrong_type.json'',
             display_config = ''display.configuration'',
             oav_context = ''loopCentring'',
             global_params = [(''exposure'', PyStr ''abc'')],
             context_dicts = [(''loopCentring'', [])],
             active_params = [[], [(''exposure'', PyStr ''abc'')]],
             exposure = None, acquire_period = None, gain = None,
             canny_edge_upper_threshold = None, canny_edge_lower_threshold = None,
             minimum_height = None, zoom = None, preprocess = None,
             preprocess_K_size = None, detection_script_filename = None,
             close_ksize = None, min_callback_time = None, direction = None,
             max_tip_distance = None, micronsPerXPixel = None, micronsPerYPixel = None,
             max_tip_distance_pixels = None, beam_centre_i = None, beam_centre_j = None,
             beam_centre_x = None, beam_centre_y = None\<rparr>
        ''exposure'' (py_float exact_python) PyNone = Inl ValueError
   \<and> init exact_python example_fs ''loopCentring'' ''jCameraManZoomLevels.xml''
       ''wrong_type.json'' ''display.configuration'' = Inl ValueError"
  by code_simp

subsection \<open>Loading the JSON file\<close>

text \<open>
  Claim C6 says that a JSON path that is missing, unreadable or malformed makes
  \<^verbatim>\<open>load_json\<close> raise a typed file error of the module. It is false as stated: for a
  path that does not exist \<^verbatim>\<open>load_json\<close> raises the builtin \<^verbatim>\<open>FileNotFoundError\<close>,
  which is not one of the module's error classes.
\<close>

theorem load_json_typed_error_counterexample:
  "map_of example_fs ''missing.json'' = None
   \<and> load_json exact_python example_fs ''missing.json'' = Inl FileNotFoundError
   \<and> \<not> oav_error FileNotFoundError"
  by code_simp

text \<open>
  Claim C6 as amended: \<^verbatim>\<open>load_json\<close>, and the constructor that calls it, have no
  handler and raise nothing themselves while the file is loaded: whatever exception
  \<^verbatim>\<open>open\<close> or \<^verbatim>\<open>json.load\<close> raises for the path goes through unchanged (for
  example \<^verbatim>\<open>FileNotFoundError\<close> for a path that does not exist, \<^verbatim>\<open>PermissionError\<close>
  for a file that may not be read, \<^verbatim>\<open>JSONDecodeError\<close> for malformed JSON), and it is
  not turned into an error class of the module.
\<close>

theorem load_json_propagates_builtin_errors:
  "(map_of fs filename = None \<longrightarrow>
      load_json py fs filename = Inl FileNotFoundError
      \<and> init py fs ctx zoom_file filename display_file = Inl FileNotFoundError)
   \<and> (map_of fs filename = Some (Raises e) \<longrightarrow>
      load_json py fs filename = Inl e
      \<and> init py fs ctx zoom_file filename display_file = Inl e)
   \<and> (map_of fs filename = Some (Contents c) \<and> json_loads py c = Inl e \<longrightarrow>
      load_json py fs filename = Inl e
      \<and> init py fs ctx zoom_file filename display_file = Inl e)
   \<and> (load_json py fs filename = Inl e \<longrightarrow>
        map_of fs filename = None \<and> e = FileNotFoundError
        \<or> map_of fs filename = Some (Raises e)
        \<or> (\<exists>c. map_of fs filename = Some (Contents c)
               \<and> (json_loads py c = Inl e
                    \<or> e = AttributeError \<and> (\<exists>v. json_loads py c = Inr v \<and> \<not> is_dict v))))
   \<and> \<not> oav_error FileNotFoundError \<and> \<not> oav_error PermissionError
   \<and> \<not> oav_error IsADirectoryError \<and> \<not> oav_error NotADirectoryError
   \<and> \<not> oav_error OSError \<and> \<not> oav_error ValueError
   \<and> \<not> oav_error UnicodeDecodeError \<and> \<not> oav_error RecursionError
   \<and> \<not> oav_error JSONDecodeError"
proof -
  have raised: "load_json py fs filename = Inl e \<longrightarrow>
        map_of fs filename = None \<and> e = FileNotFoundError
        \<or> map_of fs filename = Some (Raises e)
        \<or> (\<exists>c. map_of fs filename = Some (Contents c)
               \<and> (json_loads py c = Inl e
                    \<or> e = AttributeError \<and> (\<exists>v. json_loads py c = Inr v \<and> \<not> is_dict v)))"
  proof (cases "map_of fs filename")
    case None
    then show ?thesis
      by (simp add: load_json_def open_read_def)
  next
    case (Some entry)
    show ?thesis
    proof (cases entry)
      case (Raises e')
      with Some show ?thesis
        by (simp add: load_json_def open_read_def)
    next
      case (Contents c)
      show ?thesis
      proof (cases "json_loads py c")
        case (Inl e')
        with Some Contents show ?thesis
          by (simp add: load_json_def open_read_def)
      next
        case (Inr v)
        with Some Contents show ?thesis
          by (cases v) (simp_all add: load_json_def open_read_def)
      qed
    qed
  qed
  have propagated: "(map_of fs filename = None \<longrightarrow>
      load_json py fs filename = Inl FileNotFoundError
      \<and> init py fs ctx zoom_file filename display_file = Inl FileNotFoundError)
   \<and> (map_of fs filename = Some (Raises e) \<longrightarrow>
      load_json py fs filename = Inl e
      \<and> init py fs ctx zoom_file filename display_file = Inl e)
   \<and> (map_of fs filename = Some (Contents c) \<and> json_loads py c = Inl e \<longrightarrow>
      load_json py fs filename = Inl e
      \<and> init py fs ctx zoom_file filename display_file = Inl e)"
    by (simp add: load_json_def init_def open_read_def)
  from propagated raised show ?thesis
    by simp
qed

text \<open>
  The amended claim C6 on the example file system: a path that does not exist, a file
  that may not be read, a directory, a path below a file, malformed JSON, and bytes
  that are not text.
\<close>

theorem load_json_propagates_builtin_errors_witness:
  "map_of example_fs ''missing.json'' = None
   \<and> load_json exact_python example_fs ''missing.json'' = Inl FileNotFoundError
   \<and> map_of example_fs ''secret.json'' = Some (Raises PermissionError)
   \<and> load_json exact_python example_fs ''secret.json'' = Inl PermissionError
   \<and> map_of example_fs ''config'' = Some (Raises IsADirectoryError)
   \<and> load_json exact_python example_fs ''config'' = Inl IsADirectoryError
   \<and> map_of example_fs ''OAVCentring.json/x'' = Some (Raises NotADirectoryError)
   \<and> load_json exact_python example_fs ''OAVCentring.json/x'' = Inl NotADirectoryError
   \<and> map_of example_fs ''broken.json'' = Some (Contents broken_json_text)
   \<and> json_loads exact_python broken_json_text = Inl JSONDecodeError
   \<and> load_json exact_python example_fs ''broken.json'' = Inl JSONDecodeError
   \<and> init exact_python example_fs ''loopCentring'' ''jCameraManZoomLevels.xml''
        ''broken.json'' ''display.configuration'' = Inl JSONDecodeError
   \<and> map_of example_fs ''latin1.json'' = Some (Contents latin1_json_text)
   \<and> json_loads exact_python latin1_json_text = Inl UnicodeDecodeError
   \<and> load_json exact_python example_fs ''latin1.json'' = Inl UnicodeDecodeError"
proof -
  have missing: "map_of example_fs ''missing.json'' = None"
    by code_simp
  have secret: "map_of example_fs ''secret.json'' = Some (Raises PermissionError)"
    by code_simp
  have directory: "map_of example_fs ''config'' = Some (Raises IsADirectoryError)"
    by code_simp
  have below: "map_of example_fs ''OAVCentring.json/x'' = Some (Raises NotADirectoryError)"
    by code_simp
  have broken: "map_of example_fs ''broken.json'' = Some (Contents broken_json_text)"
    by code_simp
  have malformed: "json_loads exact_python broken_json_text = Inl JSONDecodeError"
    by code_simp
  have latin1: "map_of example_fs ''latin1.json'' = Some (Contents latin1_json_text)"
    by code_simp
  have undecodable: "json_loads exact_python latin1_json_text = Inl UnicodeDecodeError"
    by code_simp
  from load_json_propagates_builtin_errors
         [where fs = example_fs and filename = "''missing.json''" and py = exact_python]
       missing
  have r1: "load_json exact_python example_fs ''missing.json'' = Inl FileNotFoundError"
    by blast
  from load_json_propagates_builtin_errors
         [where fs = example_fs and filename = "''secret.json''" and py = exact_python
            and e = PermissionError]
       secret
  have r2: "load_json exact_python example_fs ''secret.json'' = Inl PermissionError"
    by blast
  from load_json_propagates_builtin_errors
         [where fs = example_fs and filename = "''config''" and py = exact_python
            and e = IsADirectoryError]
       directory
  have r3: "load_json exact_python example_fs ''config'' = Inl IsADirectoryError"
    by blast
  from load_json_propagates_builtin_errors
         [where fs = example_fs and filename = "''OAVCentring.json/x''" and py = exact_python
            and e = NotADirectoryError]
       below
  have r4: "load_json exact_python example_fs ''OAVCentring.json/x'' = Inl NotADirectoryError"
    by blast
  from load_json_propagates_builtin_errors
         [where fs = example_fs and filename = "''broken.json''" and c = broken_json_text
            and py = exact_python and e = JSONDecodeError and ctx = "''loopCentring''"
            and zoom_file = "''jCameraManZoomLevels.xml''"
            and display_file = "''display.configuration''"]
       broken malformed
  have r5: "load_json exact_python example_fs ''broken.json'' = Inl JSONDecodeError
     \<and> init exact_python example_fs ''loopCentring'' ''jCameraManZoomLevels.xml''
        ''broken.json'' ''display.configuration'' = Inl JSONDecodeError"
    by blast
  from load_json_propagates_builtin_errors
         [where fs = example_fs and filename = "''latin1.json''" and c = latin1_json_text
            and py = exact_python and e = UnicodeDecodeError]
       latin1 undecodable
  have r6: "load_json exact_python example_fs ''latin1.json'' = Inl UnicodeDecodeError"
    by blast
  from missing secret directory below broken malformed latin1 undecodable r1 r2 r3 r4 r5 r6
  show ?thesis by (simp only: simp_thms)
qed

subsection \<open>The calibration table\<close>

text \<open>
  The loop of \<^verbatim>\<open>load_microns_per_pixel\<close> on readable nodes: a node that does not match
  leaves the object as it is, a node that matches stores its two scales, and so the
  loop ends with the scales of the last node that matches.
\<close>

lemma scan_levels_skip:
  assumes "\<not> level_matches py z node" and "level_readable py z node"
  shows "scan_levels py z (node # levels) self = scan_levels py z levels self"
  using assms
  by (auto simp: level_matches_def level_readable_def split: sum.splits)

lemma scan_levels_take:
  assumes "level_matches py z node"
    and "float_of_child py node ''micronsPerXPixel'' = Inr x"
    and "float_of_child py node ''micronsPerYPixel'' = Inr y"
  shows "scan_levels py z (node # levels) self
           = scan_levels py z levels
               (self\<lparr>micronsPerXPixel := Some x, micronsPerYPixel := Some y\<rparr>)"
  using assms
  by (auto simp: level_matches_def split: sum.splits)

lemma level_readable_matchD:
  assumes "level_readable py z node" and "level_matches py z node"
  shows "\<exists>x y. float_of_child py node ''micronsPerXPixel'' = Inr x
             \<and> float_of_child py node ''micronsPerYPixel'' = Inr y"
  using assms
  by (auto simp: level_matches_def level_readable_def split: sum.splits if_splits)

lemma scan_levels_no_match:
  assumes "\<forall>n\<in>set levels. level_readable py z n"
    and "filter (level_matches py z) levels = []"
  shows "scan_levels py z levels self = Inr self"
  using assms
proof (induction levels)
  case Nil
  show ?case by simp
next
  case (Cons node levels)
  from Cons.prems(1) have rd: "level_readable py z node"
    and rest: "\<forall>n\<in>set levels. level_readable py z n"
    by simp_all
  from Cons.prems(2) have nm: "\<not> level_matches py z node"
    and none: "filter (level_matches py z) levels = []"
    by (simp_all split: if_splits)
  have "scan_levels py z (node # levels) self = scan_levels py z levels self"
    using nm rd by (rule scan_levels_skip)
  also have "\<dots> = Inr self"
    using rest none by (rule Cons.IH)
  finally show ?case .
qed

lemma scan_levels_last_match:
  assumes "\<forall>n\<in>set levels. level_readable py z n"
    and "filter (level_matches py z) levels \<noteq> []"
    and "float_of_child py (last (filter (level_matches py z) levels)) ''micronsPerXPixel'' = Inr x"
    and "float_of_child py (last (filter (level_matches py z) levels)) ''micronsPerYPixel'' = Inr y"
  shows "scan_levels py z levels self
           = Inr (self\<lparr>micronsPerXPixel := Some x, micronsPerYPixel := Some y\<rparr>)"
  using assms
proof (induction levels arbitrary: self)
  case Nil
  from Nil.prems(2) show ?case by simp
next
  case (Cons node levels)
  from Cons.prems(1) have rd: "level_readable py z node"
    and rest: "\<forall>n\<in>set levels. level_readable py z n"
    by simp_all
  show ?case
  proof (cases "filter (level_matches py z) levels = []")
    case True
    with Cons.prems(2) have m: "level_matches py z node"
      by (simp split: if_splits)
    with True Cons.prems(3,4) have
      "float_of_child py node ''micronsPerXPixel'' = Inr x"
      "float_of_child py node ''micronsPerYPixel'' = Inr y"
      by simp_all
    with m have "scan_levels py z (node # levels) self
           = scan_levels py z levels
               (self\<lparr>micronsPerXPixel := Some x, micronsPerYPixel := Some y\<rparr>)"
      by (rule scan_levels_take)
    also have "\<dots> = Inr (self\<lparr>micronsPerXPixel := Some x, micronsPerYPixel := Some y\<rparr>)"
      using rest True by (rule scan_levels_no_match)
    finally show ?thesis .
  next
    case False
    with Cons.prems(3,4) have
      lx: "float_of_child py (last (filter (level_matches py z) levels)) ''micronsPerXPixel'' = Inr x"
      and ly: "float_of_child py (last (filter (level_matches py z) levels)) ''micronsPerYPixel'' = Inr y"
      by (simp_all split: if_splits)
    note IH = Cons.IH [OF rest False lx ly]
    show ?thesis
    proof (cases "level_matches py z node")
      case True
      from level_readable_matchD [OF rd True] obtain x' y' where
        "float_of_child py node ''micronsPerXPixel'' = Inr x'"
        "float_of_child py node ''micronsPerYPixel'' = Inr y'"
        by blast
      with True have "scan_levels py z (node # levels) self
           = scan_levels py z levels
               (self\<lparr>micronsPerXPixel := Some x', micronsPerYPixel := Some y'\<rparr>)"
        by (rule scan_levels_take)
      also have "\<dots> = Inr (self\<lparr>micronsPerXPixel := Some x', micronsPerYPixel := Some y'\<rparr>
                              \<lparr>micronsPerXPixel := Some x, micronsPerYPixel := Some y\<rparr>)"
        by (rule IH)
      also have "\<dots> = Inr (self\<lparr>micronsPerXPixel := Some x, micronsPerYPixel := Some y\<rparr>)"
        by simp
      finally show ?thesis .
    next
      case False
      from False rd have "scan_levels py z (node # levels) self = scan_levels py z levels self"
        by (rule scan_levels_skip)
      also have "\<dots> = Inr (self\<lparr>micronsPerXPixel := Some x, micronsPerYPixel := Some y\<rparr>)"
        by (rule IH)
      finally show ?thesis .
    qed
  qed
qed

text \<open>The method up to the end of its loop, and what is left after it.\<close>

lemma load_microns_per_pixel_steps:
  assumes "et_parse py fs (zoom_params_file self) = Inr tree"
    and "zoom self = Some z"
    and "zoom_level = (if truthy py zoom_arg then zoom_arg else PyFloat z)"
    and "scan_levels py zoom_level (findall_below tree ''zoomLevel'')
           (self\<lparr>micronsPerXPixel := None, micronsPerYPixel := None\<rparr>) = Inr s"
  shows "load_microns_per_pixel py fs self zoom_arg =
       (case micronsPerXPixel s of
         None \<Rightarrow> Inl OAVError_ZoomLevelNotFound
       | Some mx \<Rightarrow>
          (case micronsPerYPixel s of
             None \<Rightarrow> Inl OAVError_ZoomLevelNotFound
           | Some my \<Rightarrow>
              (case max_tip_distance s of
                 None \<Rightarrow> Inl AttributeError
               | Some d \<Rightarrow>
                  (case float_truediv py d mx of
                     None \<Rightarrow> Inl ZeroDivisionError
                   | Some q \<Rightarrow> Inr (s\<lparr>max_tip_distance_pixels := Some q\<rparr>)))))"
proof (cases "truthy py zoom_arg")
  case True
  with assms(3) have "zoom_level = zoom_arg" by simp
  with assms(1,4) True show ?thesis
    by (simp add: load_microns_per_pixel_def)
next
  case False
  with assms(3) have "zoom_level = PyFloat z" by simp
  with assms(1,2,4) False show ?thesis
    by (simp add: load_microns_per_pixel_def)
qed

lemma load_microns_per_pixel_InrD:
  assumes "load_microns_per_pixel py fs self zoom_arg = Inr self'"
  shows "\<exists>s mx my d q. micronsPerXPixel s = Some mx \<and> micronsPerYPixel s = Some my
           \<and> max_tip_distance s = Some d \<and> float_truediv py d mx = Some q
           \<and> self' = s\<lparr>max_tip_distance_pixels := Some q\<rparr>"
proof -
  from assms obtain s where
    fin: "(case micronsPerXPixel s of
         None \<Rightarrow> Inl OAVError_ZoomLevelNotFound
       | Some mx \<Rightarrow>
          (case micronsPerYPixel s of
             None \<Rightarrow> Inl OAVError_ZoomLevelNotFound
           | Some my \<Rightarrow>
              (case max_tip_distance s of
                 None \<Rightarrow> Inl AttributeError
               | Some d \<Rightarrow>
                  (case float_truediv py d mx of
                     None \<Rightarrow> Inl ZeroDivisionError
                   | Some q \<Rightarrow> Inr (s\<lparr>max_tip_distance_pixels := Some q\<rparr>))))) = Inr self'"
    unfolding load_microns_per_pixel_def and_then_Inr_iff by blast
  then show ?thesis
    by (auto split: option.splits)
qed

text \<open>
  Claim C4 says that, of two or more nodes whose level equals the requested zoom, the
  first in document order gives the result. It is false as stated: in the table
  \<^verbatim>\<open>twice.xml\<close> the nodes for level 5.0 are the first, with scales 0.5 and 0.5, and
  the third, with 0.25 and 0.125; requesting 5.0 stores 0.25 and 0.125.
\<close>

theorem first_match_counterexample:
  "filter (level_matches exact_python (PyFloat 5))
      (findall_below (zoom_levels_tree twice_rows) ''zoomLevel'')
     = [zoom_level_node ''5.0'' ''0.5'' ''0.5'', zoom_level_node ''5.0'' ''0.25'' ''0.125'']
   \<and> float_of_child exact_python (zoom_level_node ''5.0'' ''0.5'' ''0.5'')
        ''micronsPerXPixel'' = Inr (1 / 2)
   \<and> float_of_child exact_python (zoom_level_node ''5.0'' ''0.5'' ''0.5'')
        ''micronsPerYPixel'' = Inr (1 / 2)
   \<and> load_microns_per_pixel exact_python example_fs
        (example_unscaled\<lparr>zoom_params_file := ''twice.xml''\<rparr>) (PyFloat 5)
     = Inr (example_unscaled\<lparr>zoom_params_file := ''twice.xml'',
              micronsPerXPixel := Some (1 / 4), micronsPerYPixel := Some (1 / 8),
              max_tip_distance_pixels := Some 1200\<rparr>)"
  by code_simp

text \<open>
  Claim C4 as amended: for every XML calibration file all of whose \<^verbatim>\<open>zoomLevel\<close> nodes
  are readable and at least one of which has a level equal to the requested zoom (the
  argument, or the stored zoom when the argument is falsy),
  \<^verbatim>\<open>load_microns_per_pixel\<close> stores the \<^verbatim>\<open>micronsPerXPixel\<close> and
  \<^verbatim>\<open>micronsPerYPixel\<close> of the last such node in document order, together with the
  quotient of \<^verbatim>\<open>max_tip_distance\<close> by that x scale, provided the division is defined.
\<close>

theorem last_matching_node_wins:
  assumes "et_parse py fs (zoom_params_file self) = Inr tree"
    and "zoom self = Some z"
    and "zoom_level = (if truthy py zoom_arg then zoom_arg else PyFloat z)"
    and "\<forall>n\<in>set (findall_below tree ''zoomLevel''). level_readable py zoom_level n"
    and "filter (level_matches py zoom_level) (findall_below tree ''zoomLevel'') = matches"
    and "matches \<noteq> []"
    and "float_of_child py (last matches) ''micronsPerXPixel'' = Inr x"
    and "float_of_child py (last matches) ''micronsPerYPixel'' = Inr y"
    and "max_tip_distance self = Some d"
    and "float_truediv py d x = Some q"
  shows "load_microns_per_pixel py fs self zoom_arg
           = Inr (self\<lparr>micronsPerXPixel := Some x, micronsPerYPixel := Some y,
                       max_tip_distance_pixels := Some q\<rparr>)"
proof -
  have "scan_levels py zoom_level (findall_below tree ''zoomLevel'')
          (self\<lparr>micronsPerXPixel := None, micronsPerYPixel := None\<rparr>)
        = Inr (self\<lparr>micronsPerXPixel := Some x, micronsPerYPixel := Some y\<rparr>)"
    using scan_levels_last_match [of "findall_below tree ''zoomLevel''" py zoom_level x y
            "self\<lparr>micronsPerXPixel := None, micronsPerYPixel := None\<rparr>"] assms(4-8)
    by simp
  from load_microns_per_pixel_steps [OF assms(1,2,3) this] assms(9,10)
  show ?thesis by simp
qed

text \<open>The amended claim C4 on the table \<^verbatim>\<open>twice.xml\<close>.\<close>

theorem last_matching_node_wins_witness:
  "et_parse exact_python example_fs
      (zoom_params_file (example_unscaled\<lparr>zoom_params_file := ''twice.xml''\<rparr>))
     = Inr (zoom_levels_tree twice_rows)
   \<and> zoom (example_unscaled\<lparr>zoom_params_file := ''twice.xml''\<rparr>) = Some 1
   \<and> PyFloat 5 = (if truthy exact_python (PyFloat 5) then PyFloat 5 else PyFloat (1 :: rat))
   \<and> list_all (level_readable exact_python (PyFloat 5))
        (findall_below (zoom_levels_tree twice_rows) ''zoomLevel'')
   \<and> filter (level_matches exact_python (PyFloat 5))
        (findall_below (zoom_levels_tree twice_rows) ''zoomLevel'')
     = [zoom_level_node ''5.0'' ''0.5'' ''0.5'', zoom_level_node ''5.0'' ''0.25'' ''0.125'']
   \<and> float_of_child exact_python (zoom_level_node ''5.0'' ''0.25'' ''0.125'')
        ''micronsPerXPixel'' = Inr (1 / 4)
   \<and> float_of_child exact_python (zoom_level_node ''5.0'' ''0.25'' ''0.125'')
        ''micronsPerYPixel'' = Inr (1 / 8)
   \<and> max_tip_distance (example_unscaled\<lparr>zoom_params_file := ''twice.xml''\<rparr>) = Some 300
   \<and> float_truediv exact_python 300 (1 / 4) = Some 1200
   \<and> load_microns_per_pixel exact_python example_fs
        (example_unscaled\<lparr>zoom_params_file := ''twice.xml''\<rparr>) (PyFloat 5)
     = Inr (example_unscaled\<lparr>zoom_params_file := ''twice.xml'',
              micronsPerXPixel := Some (1 / 4), micronsPerYPixel := Some (1 / 8),
              max_tip_distance_pixels := Some 1200\<rparr>)"
proof -
  let ?obj = "example_unscaled\<lparr>zoom_params_file := ''twice.xml''\<rparr>"
  let ?nodes = "findall_below (zoom_levels_tree twice_rows) ''zoomLevel''"
  let ?matches = "[zoom_level_node ''5.0'' ''0.5'' ''0.5'',
                   zoom_level_node ''5.0'' ''0.25'' ''0.125'']"
  have parse: "et_parse exact_python example_fs (zoom_params_file ?obj)
                 = Inr (zoom_levels_tree twice_rows)"
    by code_simp
  have stored: "zoom ?obj = Some 1"
    by code_simp
  have level: "PyFloat 5 = (if truthy exact_python (PyFloat 5) then PyFloat 5 else PyFloat (1 :: rat))"
    by code_simp
  have readable: "\<forall>n\<in>set ?nodes. level_readable exact_python (PyFloat 5) n"
    by code_simp
  have matches: "filter (level_matches exact_python (PyFloat 5)) ?nodes = ?matches"
    by code_simp
  have nonempty: "?matches \<noteq> []"
    by simp
  have x: "float_of_child exact_python (last ?matches) ''micronsPerXPixel'' = Inr (1 / 4)"
    by code_simp
  have y: "float_of_child exact_python (last ?matches) ''micronsPerYPixel'' = Inr (1 / 8)"
    by code_simp
  have d: "max_tip_distance ?obj = Some 300"
    by code_simp
  have q: "float_truediv exact_python 300 (1 / 4) = Some 1200"
    by code_simp
  have "load_microns_per_pixel exact_python example_fs ?obj (PyFloat 5)
     = Inr (?obj\<lparr>micronsPerXPixel := Some (1 / 4), micronsPerYPixel := Some (1 / 8),
              max_tip_distance_pixels := Some 1200\<rparr>)"
    by (rule last_matching_node_wins
              [OF parse stored level readable matches nonempty x y d q])
  with parse stored level readable matches x y d q show ?thesis
    by (simp add: list_all_iff)
qed

text \<open>
  Claim C7 says that the lookup succeeds only with exactly one matching node, so that
  more than one match is an error too. It is false as stated: \<^verbatim>\<open>twice.xml\<close> has two
  nodes for the stored zoom 5.0 and the call succeeds.
\<close>

theorem exactly_one_match_counterexample:
  "length (filter (level_matches exact_python (PyFloat 5))
      (findall_below (zoom_levels_tree twice_rows) ''zoomLevel'')) = 2
   \<and> zoom (example_object\<lparr>zoom_params_file := ''twice.xml''\<rparr>) = Some 5
   \<and> load_microns_per_pixel exact_python example_fs
        (example_object\<lparr>zoom_params_file := ''twice.xml''\<rparr>) PyNone
     = Inr (example_object\<lparr>zoom_params_file := ''twice.xml'',
              micronsPerXPixel := Some (1 / 4), micronsPerYPixel := Some (1 / 8),
              max_tip_distance_pixels := Some 1200\<rparr>)"
  by code_simp

text \<open>
  Claim C7 as amended: for every XML calibration file all of whose \<^verbatim>\<open>zoomLevel\<close> nodes
  are readable and every requested zoom level, \<^verbatim>\<open>load_microns_per_pixel\<close> raises
  \<^verbatim>\<open>OAVError_ZoomLevelNotFound\<close> if and only if no node's level equals the requested
  zoom; one match or several are the same to it.
\<close>

theorem zoom_level_not_found_iff_no_match:
  assumes "et_parse py fs (zoom_params_file self) = Inr tree"
    and "zoom self = Some z"
    and "zoom_level = (if truthy py zoom_arg then zoom_arg else PyFloat z)"
    and "\<forall>n\<in>set (findall_below tree ''zoomLevel''). level_readable py zoom_level n"
  shows "load_microns_per_pixel py fs self zoom_arg = Inl OAVError_ZoomLevelNotFound
           \<longleftrightarrow> filter (level_matches py zoom_level) (findall_below tree ''zoomLevel'') = []"
proof (cases "filter (level_matches py zoom_level) (findall_below tree ''zoomLevel'') = []")
  case True
  have "scan_levels py zoom_level (findall_below tree ''zoomLevel'')
          (self\<lparr>micronsPerXPixel := None, micronsPerYPixel := None\<rparr>)
        = Inr (self\<lparr>micronsPerXPixel := None, micronsPerYPixel := None\<rparr>)"
    using assms(4) True by (rule scan_levels_no_match)
  from load_microns_per_pixel_steps [OF assms(1,2,3) this] True
  show ?thesis by simp
next
  case False
  let ?last = "last (filter (level_matches py zoom_level) (findall_below tree ''zoomLevel''))"
  from False have "?last \<in> set (filter (level_matches py zoom_level) (findall_below tree ''zoomLevel''))"
    by (rule last_in_set)
  then have "level_matches py zoom_level ?last" and "level_readable py zoom_level ?last"
    using assms(4) by auto
  from level_readable_matchD [OF this(2) this(1)] obtain x y where
    "float_of_child py ?last ''micronsPerXPixel'' = Inr x"
    "float_of_child py ?last ''micronsPerYPixel'' = Inr y"
    by blast
  with assms(4) False have "scan_levels py zoom_level (findall_below tree ''zoomLevel'')
          (self\<lparr>micronsPerXPixel := None, micronsPerYPixel := None\<rparr>)
        = Inr (self\<lparr>micronsPerXPixel := Some x, micronsPerYPixel := Some y\<rparr>)"
    using scan_levels_last_match [of "findall_below tree ''zoomLevel''" py zoom_level x y
            "self\<lparr>micronsPerXPixel := None, micronsPerYPixel := None\<rparr>"]
    by simp
  from load_microns_per_pixel_steps [OF assms(1,2,3) this] False
  show ?thesis by (simp split: option.splits)
qed

text \<open>
  The amended claim C7 on the table of the specification, which has no entry for 2.0.
\<close>

theorem zoom_level_not_found_iff_no_match_witness:
  "et_parse exact_python example_fs (zoom_params_file example_object)
     = Inr (zoom_levels_tree example_rows)
   \<and> zoom example_object = Some 5
   \<and> PyFloat 2 = (if truthy exact_python (PyFloat 2) then PyFloat 2 else PyFloat (5 :: rat))
   \<and> list_all (level_readable exact_python (PyFloat 2))
        (findall_below (zoom_levels_tree example_rows) ''zoomLevel'')
   \<and> filter (level_matches exact_python (PyFloat 2))
        (findall_below (zoom_levels_tree example_rows) ''zoomLevel'') = []
   \<and> load_microns_per_pixel exact_python example_fs example_object (PyFloat 2)
     = Inl OAVError_ZoomLevelNotFound"
proof -
  let ?nodes = "findall_below (zoom_levels_tree example_rows) ''zoomLevel''"
  have parse: "et_parse exact_python example_fs (zoom_params_file example_object)
                 = Inr (zoom_levels_tree example_rows)"
    by code_simp
  have stored: "zoom example_object = Some 5"
    by code_simp
  have level: "PyFloat 2 = (if truthy exact_python (PyFloat 2) then PyFloat 2 else PyFloat (5 :: rat))"
    by code_simp
  have readable: "\<forall>n\<in>set ?nodes. level_readable exact_python (PyFloat 2) n"
    by code_simp
  have none: "filter (level_matches exact_python (PyFloat 2)) ?nodes = []"
    by code_simp
  from zoom_level_not_found_iff_no_match [OF parse stored level readable] none
  have "load_microns_per_pixel exact_python example_fs example_object (PyFloat 2)
          = Inl OAVError_ZoomLevelNotFound"
    by blast
  with parse stored level readable none show ?thesis
    by (simp add: list_all_iff)
qed

text \<open>
  Claim C8: after every call of \<^verbatim>\<open>load_microns_per_pixel\<close> that returns,
  \<^verbatim>\<open>max_tip_distance_pixels\<close> is \<^verbatim>\<open>max_tip_distance / micronsPerXPixel\<close> for the
  scale just stored; and with the entries 1.0: (2.5, 2.5) and 5.0: (0.5, 0.5) and a
  \<^verbatim>\<open>max_tip_distance\<close> of 300, requesting zoom 5.0 gives a \<^verbatim>\<open>micronsPerXPixel\<close> of
  0.5 and a \<^verbatim>\<open>max_tip_distance_pixels\<close> of 600.
\<close>

theorem max_tip_distance_pixels_invariant:
  "(load_microns_per_pixel py fs self zoom_arg = Inr self' \<longrightarrow>
      (\<exists>d mx q. max_tip_distance self' = Some d \<and> micronsPerXPixel self' = Some mx
         \<and> float_truediv py d mx = Some q \<and> max_tip_distance_pixels self' = Some q))
   \<and> (\<exists>obj. load_microns_per_pixel exact_python example_fs example_unscaled (PyFloat 5)
               = Inr obj
        \<and> max_tip_distance obj = Some 300 \<and> micronsPerXPixel obj = Some (1 / 2)
        \<and> max_tip_distance_pixels obj = Some 600)"
proof
  show "load_microns_per_pixel py fs self zoom_arg = Inr self' \<longrightarrow>
      (\<exists>d mx q. max_tip_distance self' = Some d \<and> micronsPerXPixel self' = Some mx
         \<and> float_truediv py d mx = Some q \<and> max_tip_distance_pixels self' = Some q)"
  proof
    assume "load_microns_per_pixel py fs self zoom_arg = Inr self'"
    from load_microns_per_pixel_InrD [OF this] show
      "\<exists>d mx q. max_tip_distance self' = Some d \<and> micronsPerXPixel self' = Some mx
         \<and> float_truediv py d mx = Some q \<and> max_tip_distance_pixels self' = Some q"
      by auto
  qed
next
  have "load_microns_per_pixel exact_python example_fs example_unscaled (PyFloat 5)
          = Inr (example_object\<lparr>zoom := Some 1\<rparr>)"
    by code_simp
  moreover have "max_tip_distance (example_object\<lparr>zoom := Some 1\<rparr>) = Some 300"
    and "micronsPerXPixel (example_object\<lparr>zoom := Some 1\<rparr>) = Some (1 / 2)"
    and "max_tip_distance_pixels (example_object\<lparr>zoom := Some 1\<rparr>) = Some 600"
    by (simp_all add: example_object_def)
  ultimately show "\<exists>obj. load_microns_per_pixel exact_python example_fs example_unscaled
                 (PyFloat 5) = Inr obj
        \<and> max_tip_distance obj = Some 300 \<and> micronsPerXPixel obj = Some (1 / 2)
        \<and> max_tip_distance_pixels obj = Some 600"
    by blast
qed

text \<open>Claim C8 on a call that returns: the table \<^verbatim>\<open>twice.xml\<close> at the stored zoom.\<close>

theorem max_tip_distance_pixels_invariant_witness:
  "load_microns_per_pixel exact_python example_fs
       (example_object\<lparr>zoom_params_file := ''twice.xml''\<rparr>) PyNone
     = Inr (example_object\<lparr>zoom_params_file := ''twice.xml'',
              micronsPerXPixel := Some (1 / 4), micronsPerYPixel := Some (1 / 8),
              max_tip_distance_pixels := Some 1200\<rparr>)
   \<and> float_truediv exact_python 300 (1 / 4) = Some 1200"
proof -
  let ?obj = "example_object\<lparr>zoom_params_file := ''twice.xml'',
              micronsPerXPixel := Some (1 / 4), micronsPerYPixel := Some (1 / 8),
              max_tip_distance_pixels := Some 1200\<rparr>"
  have run: "load_microns_per_pixel exact_python example_fs
       (example_object\<lparr>zoom_params_file := ''twice.xml''\<rparr>) PyNone = Inr ?obj"
    by code_simp
  from max_tip_distance_pixels_invariant [THEN conjunct1, rule_format, OF run]
  obtain d mx q where d: "max_tip_distance ?obj = Some d"
    and mx: "micronsPerXPixel ?obj = Some mx"
    and div: "float_truediv exact_python d mx = Some q"
    and q: "max_tip_distance_pixels ?obj = Some q"
    by blast
  from d have "d = 300"
    by (simp add: example_object_def)
  moreover from mx have "mx = 1 / 4"
    by (simp add: example_object_def)
  moreover from q have "q = 1200"
    by (simp add: example_object_def)
  ultimately have "float_truediv exact_python 300 (1 / 4) = Some 1200"
    using div by (simp only:)
  with run show ?thesis by simp
qed

text \<open>
  Claim C10: \<^verbatim>\<open>None\<close> and \<^verbatim>\<open>0\<close> are falsy, and for every falsy argument
  \<^verbatim>\<open>load_microns_per_pixel\<close> does what it does without an argument and performs the
  lookup for the stored zoom \<open>z\<close>, not for the argument: on a table of readable nodes
  it raises \<^verbatim>\<open>OAVError_ZoomLevelNotFound\<close> when no node has the level \<open>z\<close>, and
  otherwise stores the scales of the last node with the level \<open>z\<close>. So an entry for
  level 0 cannot be asked for through the argument.
\<close>

theorem falsy_zoom_uses_stored_zoom:
  "\<not> truthy py PyNone \<and> \<not> truthy py (PyInt 0)
   \<and> (\<not> truthy py zoom_arg \<longrightarrow>
        load_microns_per_pixel py fs self zoom_arg
          = load_microns_per_pixel py fs self PyNone
        \<and> (zoom self = Some z \<longrightarrow>
             load_microns_per_pixel py fs self zoom_arg
               = load_microns_per_pixel py fs self (PyFloat z)
             \<and> (et_parse py fs (zoom_params_file self) = Inr tree \<longrightarrow>
                 (\<forall>n\<in>set (findall_below tree ''zoomLevel''). level_readable py (PyFloat z) n) \<longrightarrow>
                   (filter (level_matches py (PyFloat z)) (findall_below tree ''zoomLevel'') = []
                      \<longrightarrow> load_microns_per_pixel py fs self zoom_arg
                            = Inl OAVError_ZoomLevelNotFound)
                   \<and> (filter (level_matches py (PyFloat z)) (findall_below tree ''zoomLevel'')
                        \<noteq> [] \<longrightarrow>
                      float_of_child py
                        (last (filter (level_matches py (PyFloat z))
                                 (findall_below tree ''zoomLevel'')))
                        ''micronsPerXPixel'' = Inr x \<longrightarrow>
                      float_of_child py
                        (last (filter (level_matches py (PyFloat z))
                                 (findall_below tree ''zoomLevel'')))
                        ''micronsPerYPixel'' = Inr y \<longrightarrow>
                      max_tip_distance self = Some d \<longrightarrow>
                      float_truediv py d x = Some q \<longrightarrow>
                      load_microns_per_pixel py fs self zoom_arg
                        = Inr (self\<lparr>micronsPerXPixel := Some x, micronsPerYPixel := Some y,
                                    max_tip_distance_pixels := Some q\<rparr>)))))"
proof -
  have none: "load_microns_per_pixel py fs self zoom_arg = Inl OAVError_ZoomLevelNotFound"
    if falsy: "\<not> truthy py zoom_arg" and stored: "zoom self = Some z"
      and parse: "et_parse py fs (zoom_params_file self) = Inr tree"
      and readable: "\<forall>n\<in>set (findall_below tree ''zoomLevel''). level_readable py (PyFloat z) n"
      and empty: "filter (level_matches py (PyFloat z)) (findall_below tree ''zoomLevel'') = []"
  proof -
    from falsy have level: "PyFloat z = (if truthy py zoom_arg then zoom_arg else PyFloat z)"
      by simp
    have "scan_levels py (PyFloat z) (findall_below tree ''zoomLevel'')
            (self\<lparr>micronsPerXPixel := None, micronsPerYPixel := None\<rparr>)
          = Inr (self\<lparr>micronsPerXPixel := None, micronsPerYPixel := None\<rparr>)"
      using readable empty by (rule scan_levels_no_match)
    from load_microns_per_pixel_steps [OF parse stored level this]
    show ?thesis by simp
  qed
  have some: "load_microns_per_pixel py fs self zoom_arg
                = Inr (self\<lparr>micronsPerXPixel := Some x, micronsPerYPixel := Some y,
                            max_tip_distance_pixels := Some q\<rparr>)"
    if falsy: "\<not> truthy py zoom_arg" and stored: "zoom self = Some z"
      and parse: "et_parse py fs (zoom_params_file self) = Inr tree"
      and readable: "\<forall>n\<in>set (findall_below tree ''zoomLevel''). level_readable py (PyFloat z) n"
      and nonempty: "filter (level_matches py (PyFloat z)) (findall_below tree ''zoomLevel'') \<noteq> []"
      and x: "float_of_child py
                (last (filter (level_matches py (PyFloat z)) (findall_below tree ''zoomLevel'')))
                ''micronsPerXPixel'' = Inr x"
      and y: "float_of_child py
                (last (filter (level_matches py (PyFloat z)) (findall_below tree ''zoomLevel'')))
                ''micronsPerYPixel'' = Inr y"
      and d: "max_tip_distance self = Some d"
      and q: "float_truediv py d x = Some q"
  proof -
    from falsy have level: "PyFloat z = (if truthy py zoom_arg then zoom_arg else PyFloat z)"
      by simp
    have "scan_levels py (PyFloat z) (findall_below tree ''zoomLevel'')
            (self\<lparr>micronsPerXPixel := None, micronsPerYPixel := None\<rparr>)
          = Inr (self\<lparr>micronsPerXPixel := Some x, micronsPerYPixel := Some y\<rparr>)"
      using scan_levels_last_match [of "findall_below tree ''zoomLevel''" py "PyFloat z" x y
              "self\<lparr>micronsPerXPixel := None, micronsPerYPixel := None\<rparr>"]
            readable nonempty x y
      by simp
    from load_microns_per_pixel_steps [OF parse stored level this] d q
    show ?thesis by simp
  qed
  have same: "\<not> truthy py zoom_arg \<longrightarrow>
        load_microns_per_pixel py fs self zoom_arg
          = load_microns_per_pixel py fs self PyNone
        \<and> (zoom self = Some z \<longrightarrow>
             load_microns_per_pixel py fs self zoom_arg
               = load_microns_per_pixel py fs self (PyFloat z))"
    by (simp add: load_microns_per_pixel_def)
  show ?thesis
  proof (intro conjI impI)
    show "\<not> truthy py PyNone" by simp
  next
    show "\<not> truthy py (PyInt 0)" by simp
  next
    assume "\<not> truthy py zoom_arg"
    with same show "load_microns_per_pixel py fs self zoom_arg
                     = load_microns_per_pixel py fs self PyNone"
      by blast
  next
    assume "\<not> truthy py zoom_arg" and "zoom self = Some z"
    with same show "load_microns_per_pixel py fs self zoom_arg
                     = load_microns_per_pixel py fs self (PyFloat z)"
      by blast
  next
    assume "\<not> truthy py zoom_arg" and "zoom self = Some z"
      and "et_parse py fs (zoom_params_file self) = Inr tree"
      and "\<forall>n\<in>set (findall_below tree ''zoomLevel''). level_readable py (PyFloat z) n"
      and "filter (level_matches py (PyFloat z)) (findall_below tree ''zoomLevel'') = []"
    then show "load_microns_per_pixel py fs self zoom_arg = Inl OAVError_ZoomLevelNotFound"
      by (rule none)
  next
    assume "\<not> truthy py zoom_arg" and "zoom self = Some z"
      and "et_parse py fs (zoom_params_file self) = Inr tree"
      and "\<forall>n\<in>set (findall_below tree ''zoomLevel''). level_readable py (PyFloat z) n"
      and "filter (level_matches py (PyFloat z)) (findall_below tree ''zoomLevel'') \<noteq> []"
      and "float_of_child py
             (last (filter (level_matches py (PyFloat z)) (findall_below tree ''zoomLevel'')))
             ''micronsPerXPixel'' = Inr x"
      and "float_of_child py
             (last (filter (level_matches py (PyFloat z)) (findall_below tree ''zoomLevel'')))
             ''micronsPerYPixel'' = Inr y"
      and "max_tip_distance self = Some d"
      and "float_truediv py d x = Some q"
    then show "load_microns_per_pixel py fs self zoom_arg
                 = Inr (self\<lparr>micronsPerXPixel := Some x, micronsPerYPixel := Some y,
                             max_tip_distance_pixels := Some q\<rparr>)"
      by (rule some)
  qed
qed

text \<open>
  Claim C10 on the table \<^verbatim>\<open>zero.xml\<close>, whose entries are level 0.0 with scale 4.0 and
  level 5.0 with scale 0.5, and the falsy argument 0.0. On the object whose stored zoom
  is 5.0 the call stores the scale 0.5, not 4.0; on the object whose stored zoom is
  1.0 it raises \<^verbatim>\<open>OAVError_ZoomLevelNotFound\<close>, although the table has the entry for
  level 0.0.
\<close>

theorem falsy_zoom_uses_stored_zoom_witness:
  "\<not> truthy exact_python (PyFloat 0)
   \<and> et_parse exact_python example_fs ''zero.xml'' = Inr (zoom_levels_tree zero_rows)
   \<and> filter (level_matches exact_python (PyFloat 0))
        (findall_below (zoom_levels_tree zero_rows) ''zoomLevel'')
     = [zoom_level_node ''0.0'' ''4.0'' ''4.0'']
   \<and> zoom example_zero_table = Some 5
   \<and> list_all (level_readable exact_python (PyFloat 5))
        (findall_below (zoom_levels_tree zero_rows) ''zoomLevel'')
   \<and> filter (level_matches exact_python (PyFloat 5))
        (findall_below (zoom_levels_tree zero_rows) ''zoomLevel'')
     = [zoom_level_node ''5.0'' ''0.5'' ''0.5'']
   \<and> max_tip_distance example_zero_table = Some 300
   \<and> float_truediv exact_python 300 (1 / 2) = Some 600
   \<and> micronsPerXPixel example_zero_table = None
   \<and> load_microns_per_pixel exact_python example_fs example_zero_table (PyFloat 0)
     = Inr (example_zero_table\<lparr>micronsPerXPixel := Some (1 / 2),
              micronsPerYPixel := Some (1 / 2), max_tip_distance_pixels := Some 600\<rparr>)
   \<and> zoom (example_unscaled\<lparr>zoom_params_file := ''zero.xml''\<rparr>) = Some 1
   \<and> list_all (level_readable exact_python (PyFloat 1))
        (findall_below (zoom_levels_tree zero_rows) ''zoomLevel'')
   \<and> filter (level_matches exact_python (PyFloat 1))
        (findall_below (zoom_levels_tree zero_rows) ''zoomLevel'') = []
   \<and> load_microns_per_pixel exact_python example_fs
        (example_unscaled\<lparr>zoom_params_file := ''zero.xml''\<rparr>) (PyFloat 0)
     = Inl OAVError_ZoomLevelNotFound"
proof -
  let ?nodes = "findall_below (zoom_levels_tree zero_rows) ''zoomLevel''"
  let ?other = "example_unscaled\<lparr>zoom_params_file := ''zero.xml''\<rparr>"
  have falsy: "\<not> truthy exact_python (PyFloat 0)"
    by code_simp
  have parse: "et_parse exact_python example_fs ''zero.xml'' = Inr (zoom_levels_tree zero_rows)"
    by code_simp
  have parse5: "et_parse exact_python example_fs (zoom_params_file example_zero_table)
                  = Inr (zoom_levels_tree zero_rows)"
    by code_simp
  have parse1: "et_parse exact_python example_fs (zoom_params_file ?other)
                  = Inr (zoom_levels_tree zero_rows)"
    by code_simp
  have entry0: "filter (level_matches exact_python (PyFloat 0)) ?nodes
                  = [zoom_level_node ''0.0'' ''4.0'' ''4.0'']"
    by code_simp
  have stored5: "zoom example_zero_table = Some 5"
    by code_simp
  have readable5: "\<forall>n\<in>set ?nodes. level_readable exact_python (PyFloat 5) n"
    by code_simp
  have matches5: "filter (level_matches exact_python (PyFloat 5)) ?nodes
                    = [zoom_level_node ''5.0'' ''0.5'' ''0.5'']"
    by code_simp
  have x5: "float_of_child exact_python (last (filter (level_matches exact_python (PyFloat 5)) ?nodes))
              ''micronsPerXPixel'' = Inr (1 / 2)"
    by code_simp
  have y5: "float_of_child exact_python (last (filter (level_matches exact_python (PyFloat 5)) ?nodes))
              ''micronsPerYPixel'' = Inr (1 / 2)"
    by code_simp
  have d5: "max_tip_distance example_zero_table = Some 300"
    by code_simp
  have q5: "float_truediv exact_python 300 (1 / 2) = Some 600"
    by code_simp
  have unset: "micronsPerXPixel example_zero_table = None"
    by code_simp
  have stored1: "zoom ?other = Some 1"
    by code_simp
  have readable1: "\<forall>n\<in>set ?nodes. level_readable exact_python (PyFloat 1) n"
    by code_simp
  have matches1: "filter (level_matches exact_python (PyFloat 1)) ?nodes = []"
    by code_simp
  have nonempty5: "filter (level_matches exact_python (PyFloat 5)) ?nodes \<noteq> []"
    using matches5 by simp
  from falsy_zoom_uses_stored_zoom
         [where py = exact_python and zoom_arg = "PyFloat 0" and self = example_zero_table
            and z = 5 and fs = example_fs and tree = "zoom_levels_tree zero_rows"
            and x = "1 / 2" and y = "1 / 2" and d = 300 and q = 600]
       falsy stored5 parse5 readable5 nonempty5 x5 y5 d5 q5
  have found: "load_microns_per_pixel exact_python example_fs example_zero_table (PyFloat 0)
     = Inr (example_zero_table\<lparr>micronsPerXPixel := Some (1 / 2),
              micronsPerYPixel := Some (1 / 2), max_tip_distance_pixels := Some 600\<rparr>)"
    by blast
  from falsy_zoom_uses_stored_zoom
         [where py = exact_python and zoom_arg = "PyFloat 0" and self = ?other
            and z = 1 and fs = example_fs and tree = "zoom_levels_tree zero_rows"]
       falsy stored1 parse1 readable1 matches1
  have not_found: "load_microns_per_pixel exact_python example_fs ?other (PyFloat 0)
     = Inl OAVError_ZoomLevelNotFound"
    by blast
  have all5: "list_all (level_readable exact_python (PyFloat 5)) ?nodes"
    using readable5 by (simp only: list_all_iff)
  have all1: "list_all (level_readable exact_python (PyFloat 1)) ?nodes"
    using readable1 by (simp only: list_all_iff)
  from falsy parse entry0 stored5 all5 matches5 d5 q5 unset found stored1 all1
       matches1 not_found
  show ?thesis
    by (simp only: simp_thms)
qed

subsection \<open>The beam position\<close>

text \<open>
  The loop of \<^verbatim>\<open>_extract_beam_position\<close> stops at the first line that starts with
  the marker text and takes the two lines after it.
\<close>

lemma short_list_case:
  assumes "length rest < 2"
  shows "(case rest of x # y # tl3 \<Rightarrow> a x y | _ \<Rightarrow> b) = b"
  using assms by (cases rest; cases "tl rest") auto

lemma scan_lines_dropWhile:
  assumes "zoom self = Some z"
  shows "scan_lines py self ls i =
     (case dropWhile (\<lambda>l. \<not> prefix (''zoomLevel = '' @ str_of py (PyFloat z)) l) (drop i ls) of
        [] \<Rightarrow> Inr (Unbound, Unbound)
      | m # rest \<Rightarrow>
          (case rest of
             x # y # tl3 \<Rightarrow> Inr (Bound (Some x), Bound (Some y))
           | _ \<Rightarrow> Inl IndexError))"
proof (induction "length ls - i" arbitrary: i)
  case 0
  then have "\<not> i < length ls" by simp
  then show ?case
    by (subst scan_lines.simps) simp
next
  case (Suc n)
  let ?marker = "''zoomLevel = '' @ str_of py (PyFloat z)"
  from Suc.hyps(2) have less: "i < length ls" by simp
  then have d: "drop i ls = ls ! i # drop (Suc i) ls"
    by (simp add: Cons_nth_drop_Suc)
  show ?case
  proof (cases "prefix ?marker (ls ! i)")
    case False
    from Suc.hyps(2) have "n = length ls - (i + 1)" by simp
    note IH = Suc.hyps(1) [OF this]
    have "scan_lines py self ls i = scan_lines py self ls (i + 1)"
      using less assms False by (subst scan_lines.simps) simp
    with IH False d show ?thesis by simp
  next
    case True
    show ?thesis
    proof (cases "i + 2 < length ls")
      case far: True
      then have "drop (Suc i) ls = ls ! (i + 1) # ls ! (i + 2) # drop (i + 3) ls"
        by (simp add: Cons_nth_drop_Suc [symmetric] numeral_3_eq_3)
      moreover have "scan_lines py self ls i
           = Inr (Bound (Some (ls ! (i + 1))), Bound (Some (ls ! (i + 2))))"
        using less assms True far by (subst scan_lines.simps) simp
      ultimately show ?thesis using d True by simp
    next
      case near: False
      then have "length (drop (Suc i) ls) < 2" by simp
      then have "(case drop (Suc i) ls of
             x # y # tl3 \<Rightarrow> Inr (Bound (Some x), Bound (Some y))
           | _ \<Rightarrow> Inl IndexError) = (Inl IndexError :: error + (string option local_var \<times> string option local_var))"
        by (rule short_list_case)
      moreover have "scan_lines py self ls i = Inl IndexError"
        using less assms True near by (subst scan_lines.simps) simp
      ultimately show ?thesis using d True by simp
    qed
  qed
qed

lemma and_then_twice:
  "and_then m (\<lambda>i. and_then n (\<lambda>j. and_then m (\<lambda>x. and_then n (\<lambda>y. F i j x y))))
     = and_then m (\<lambda>i. and_then n (\<lambda>j. F i j i j))"
  by (cases m; cases n) simp_all

text \<open>
  Claim C5 says that a line is the marker for a zoom level only if it is equal to
  \<^verbatim>\<open>"zoomLevel = " + str(zoom)\<close>, and that a line that goes on after that text is not
  a match. It is false as stated: no line of \<^verbatim>\<open>display.longer\<close> is equal to
  \<^verbatim>\<open>zoomLevel = 5.0\<close> (every line ends with a line feed), and at zoom 5.0 the
  extraction takes the line \<^verbatim>\<open>zoomLevel = 5.05\<close> for the marker and returns the
  position (11, 12) that follows it.
\<close>

theorem exact_marker_counterexample:
  "zoom (example_object\<lparr>display_config := ''display.longer''\<rparr>) = Some 5
   \<and> ''zoomLevel = '' @ str_of exact_python (PyFloat 5) = ''zoomLevel = 5.0''
   \<and> readlines longer_display_text
     = [''zoomLevel = 5.05'' @ [CHR 0x0A], ''crosshairX = 11'' @ [CHR 0x0A],
        ''crosshairY = 12'' @ [CHR 0x0A], ''zoomLevel = 5.0'' @ [CHR 0x0A],
        ''crosshairX = 517'' @ [CHR 0x0A], ''crosshairY = 350'' @ [CHR 0x0A]]
   \<and> ''zoomLevel = 5.0'' \<notin> set (readlines longer_display_text)
   \<and> extract_beam_position exact_python example_fs
        (example_object\<lparr>display_config := ''display.longer''\<rparr>)
     = Inr (example_object\<lparr>display_config := ''display.longer'',
              beam_centre_i := Some 11, beam_centre_j := Some 12,
              beam_centre_x := Some 11, beam_centre_y := Some 12\<rparr>)"
  by code_simp

text \<open>
  The method on a file in which the first line that starts with the marker text has two
  lines after it.
\<close>

lemma extract_beam_position_at_marker:
  assumes "open_read fs (display_config self) = Inr f" and "zoom self = Some z"
    and "dropWhile (\<lambda>l. \<not> prefix (''zoomLevel = '' @ str_of py (PyFloat z)) l) (readlines f)
           = m # x_line # y_line # tl3"
  shows "extract_beam_position py fs self =
           and_then (int_of_second py x_line) (\<lambda>i.
           and_then (int_of_second py y_line) (\<lambda>j.
             Inr (self\<lparr>beam_centre_i := Some i, beam_centre_j := Some j,
                       beam_centre_x := Some i, beam_centre_y := Some j\<rparr>)))"
proof -
  have drop0: "dropWhile (\<lambda>l. \<not> prefix (''zoomLevel = '' @ str_of py (PyFloat z)) l)
                 (drop 0 (readlines f)) = m # x_line # y_line # tl3"
    using assms(3) by simp
  from scan_lines_dropWhile [OF assms(2), of py "readlines f" 0]
  have "scan_lines py self (readlines f) 0 = Inr (Bound (Some x_line), Bound (Some y_line))"
    unfolding drop0 by simp
  with assms(1) show ?thesis
    by (simp add: extract_beam_position_def and_then_twice)
qed

text \<open>
  Claim C5 as amended: a line of the text file is treated as the marker for zoom level
  \<open>z\<close> if and only if it starts with the text \<^verbatim>\<open>"zoomLevel = " + str(z)\<close>, whatever
  follows on the line: the lines before it that do not start with that text are passed
  over, and the two lines after it give the position.
\<close>

theorem marker_is_first_line_with_prefix:
  assumes "open_read fs (display_config self) = Inr f" and "zoom self = Some z"
    and "readlines f = before @ marker # x_line # y_line # after"
    and "\<forall>l\<in>set before. \<not> prefix (''zoomLevel = '' @ str_of py (PyFloat z)) l"
    and "prefix (''zoomLevel = '' @ str_of py (PyFloat z)) marker"
  shows "extract_beam_position py fs self =
           and_then (int_of_second py x_line) (\<lambda>i.
           and_then (int_of_second py y_line) (\<lambda>j.
             Inr (self\<lparr>beam_centre_i := Some i, beam_centre_j := Some j,
                       beam_centre_x := Some i, beam_centre_y := Some j\<rparr>)))"
proof -
  let ?P = "\<lambda>l. \<not> prefix (''zoomLevel = '' @ str_of py (PyFloat z)) l"
  have "dropWhile ?P (before @ marker # x_line # y_line # after)
          = dropWhile ?P (marker # x_line # y_line # after)"
    using assms(4) by (intro dropWhile_append2) simp
  also have "\<dots> = marker # x_line # y_line # after"
    using assms(5) by simp
  finally have "dropWhile ?P (readlines f) = marker # x_line # y_line # after"
    unfolding assms(3) .
  with assms(1,2) show ?thesis
    by (rule extract_beam_position_at_marker)
qed

text \<open>
  The amended claim C5 on \<^verbatim>\<open>display.configuration\<close> at the stored zoom 5.0: the three
  lines for level 1.0 are passed over, and the line \<^verbatim>\<open>zoomLevel = 5.0\<close> with its line
  feed is the marker.
\<close>

theorem marker_is_first_line_with_prefix_witness:
  "open_read example_fs (display_config example_uncentred) = Inr example_display_text
   \<and> zoom example_uncentred = Some 5
   \<and> readlines example_display_text
     = [''zoomLevel = 1.0'' @ [CHR 0x0A], ''crosshairX = 477'' @ [CHR 0x0A],
        ''crosshairY = 359'' @ [CHR 0x0A]]
       @ (''zoomLevel = 5.0'' @ [CHR 0x0A]) # (''crosshairX = 517'' @ [CHR 0x0A])
         # (''crosshairY = 350'' @ [CHR 0x0A]) # []
   \<and> list_all (\<lambda>l. \<not> prefix (''zoomLevel = '' @ str_of exact_python (PyFloat 5)) l)
        [''zoomLevel = 1.0'' @ [CHR 0x0A], ''crosshairX = 477'' @ [CHR 0x0A],
         ''crosshairY = 359'' @ [CHR 0x0A]]
   \<and> prefix (''zoomLevel = '' @ str_of exact_python (PyFloat 5))
        (''zoomLevel = 5.0'' @ [CHR 0x0A])
   \<and> beam_centre_i example_uncentred = None
   \<and> extract_beam_position exact_python example_fs example_uncentred
     = Inr (example_uncentred\<lparr>beam_centre_i := Some 517, beam_centre_j := Some 350,
              beam_centre_x := Some 517, beam_centre_y := Some 350\<rparr>)"
proof -
  let ?before = "[''zoomLevel = 1.0'' @ [CHR 0x0A], ''crosshairX = 477'' @ [CHR 0x0A],
                  ''crosshairY = 359'' @ [CHR 0x0A]]"
  have readable: "open_read example_fs (display_config example_uncentred)
                    = Inr example_display_text"
    by code_simp
  have stored: "zoom example_uncentred = Some 5"
    by code_simp
  have lines: "readlines example_display_text
     = ?before @ (''zoomLevel = 5.0'' @ [CHR 0x0A]) # (''crosshairX = 517'' @ [CHR 0x0A])
         # (''crosshairY = 350'' @ [CHR 0x0A]) # []"
    by code_simp
  have passed: "\<forall>l\<in>set ?before.
                  \<not> prefix (''zoomLevel = '' @ str_of exact_python (PyFloat 5)) l"
    by code_simp
  have marker: "prefix (''zoomLevel = '' @ str_of exact_python (PyFloat 5))
                  (''zoomLevel = 5.0'' @ [CHR 0x0A])"
    by code_simp
  have unset: "beam_centre_i example_uncentred = None"
    by code_simp
  have "extract_beam_position exact_python example_fs example_uncentred =
           and_then (int_of_second exact_python (''crosshairX = 517'' @ [CHR 0x0A])) (\<lambda>i.
           and_then (int_of_second exact_python (''crosshairY = 350'' @ [CHR 0x0A])) (\<lambda>j.
             Inr (example_uncentred\<lparr>beam_centre_i := Some i, beam_centre_j := Some j,
                       beam_centre_x := Some i, beam_centre_y := Some j\<rparr>)))"
    by (rule marker_is_first_line_with_prefix [OF readable stored lines passed marker])
  also have "\<dots> = Inr (example_uncentred\<lparr>beam_centre_i := Some 517,
              beam_centre_j := Some 350, beam_centre_x := Some 517,
              beam_centre_y := Some 350\<rparr>)"
    by code_simp
  finally show ?thesis
    using readable stored lines passed marker unset by (simp add: list_all_iff)
qed

text \<open>
  Without a marker line the two local variables are never assigned, and the test after
  the loop raises \<^verbatim>\<open>UnboundLocalError\<close> when it reads the first of them.
\<close>

lemma missing_marker_UnboundLocalError:
  assumes "open_read fs (display_config self) = Inr f" and "zoom self = Some z"
    and "\<forall>l\<in>set (readlines f). \<not> prefix (''zoomLevel = '' @ str_of py (PyFloat z)) l"
  shows "extract_beam_position py fs self = Inl UnboundLocalError"
proof -
  from assms(3) have none:
    "dropWhile (\<lambda>l. \<not> prefix (''zoomLevel = '' @ str_of py (PyFloat z)) l)
       (drop 0 (readlines f)) = []"
    by simp
  from scan_lines_dropWhile [OF assms(2), of py "readlines f" 0]
  have "scan_lines py self (readlines f) 0 = Inr (Unbound, Unbound)"
    unfolding none by simp
  with assms(1) show ?thesis
    by (simp add: extract_beam_position_def)
qed

text \<open>
  The loop binds the two variables to lines of the file, never to \<^verbatim>\<open>None\<close>, so on
  no file that it has read does the method raise \<^verbatim>\<open>OAVError_BeamPositionNotFound\<close>.
\<close>

lemma scan_lines_result:
  assumes "zoom self = Some z"
  shows "scan_lines py self ls i = Inr (Unbound, Unbound)
       \<or> scan_lines py self ls i = Inl IndexError
       \<or> (\<exists>x y. scan_lines py self ls i = Inr (Bound (Some x), Bound (Some y)))"
  unfolding scan_lines_dropWhile [OF assms]
  by (auto split: list.splits)

lemma int_of_second_not_found:
  "int_of_second py line \<noteq> Inl OAVError_BeamPositionNotFound"
  by (auto simp: int_of_second_def split: list.splits option.splits)

lemma extract_beam_position_never_not_found:
  assumes "open_read fs (display_config self) = Inr f"
  shows "extract_beam_position py fs self \<noteq> Inl OAVError_BeamPositionNotFound"
proof (cases "zoom self")
  case None
  have "scan_lines py self (readlines f) 0 = Inr (Unbound, Unbound)
      \<or> scan_lines py self (readlines f) 0 = Inl AttributeError"
    using None by (subst scan_lines.simps, subst (2) scan_lines.simps) simp
  with assms show ?thesis
    by (auto simp: extract_beam_position_def)
next
  case (Some z)
  from scan_lines_result [OF Some, of py "readlines f" 0]
  consider "scan_lines py self (readlines f) 0 = Inr (Unbound, Unbound)"
    | "scan_lines py self (readlines f) 0 = Inl IndexError"
    | x y where "scan_lines py self (readlines f) 0 = Inr (Bound (Some x), Bound (Some y))"
    by blast
  then show ?thesis
  proof cases
    case 1
    with assms show ?thesis by (simp add: extract_beam_position_def)
  next
    case 2
    with assms show ?thesis by (simp add: extract_beam_position_def)
  next
    case 3
    with assms have "extract_beam_position py fs self =
        and_then (int_of_second py x) (\<lambda>i.
        and_then (int_of_second py y) (\<lambda>j.
        and_then (int_of_second py x) (\<lambda>bx.
        and_then (int_of_second py y) (\<lambda>cy.
          Inr (self\<lparr>beam_centre_i := Some i, beam_centre_j := Some j,
                    beam_centre_x := Some bx, beam_centre_y := Some cy\<rparr>)))))"
      by (simp add: extract_beam_position_def)
    moreover have "\<dots> \<noteq> Inl OAVError_BeamPositionNotFound"
      by (intro and_then_not_raised int_of_second_not_found) simp
    ultimately show ?thesis by simp
  qed
qed

text \<open>
  Claim C3 says that a file with no marker line for the active zoom level makes the
  extraction raise \<^verbatim>\<open>OAVError_BeamPositionNotFound\<close>. The code does otherwise: the
  file \<^verbatim>\<open>display.other\<close> has a marker for level 1.0 only, and at the stored zoom 5.0
  the extraction raises \<^verbatim>\<open>UnboundLocalError\<close>.
\<close>

theorem missing_marker_raises_UnboundLocalError:
  "zoom example_object = Some 5
   \<and> open_read example_fs ''display.other'' = Inr other_display_text
   \<and> readlines other_display_text
     = [''zoomLevel = 1.0'' @ [CHR 0x0A], ''crosshairX = 477'' @ [CHR 0x0A],
        ''crosshairY = 359'' @ [CHR 0x0A]]
   \<and> extract_beam_position exact_python example_fs
        (example_object\<lparr>display_config := ''display.other''\<rparr>) = Inl UnboundLocalError"
  by code_simp

subsection \<open>The distance to the beam centre\<close>

text \<open>
  Claim C9: on every object whose beam centre is \<open>(cx, cy)\<close>,
  \<^verbatim>\<open>calculate_beam_distance(h, v)\<close> returns \<open>(cx - h, cy - v)\<close> and leaves the object
  as it was; in particular it returns \<open>(0, 0)\<close> at the beam centre itself and \<open>(3, 4)\<close>
  at \<open>(cx - 3, cy - 4)\<close>.
\<close>

theorem calculate_beam_distance_affine:
  assumes "beam_centre_i self = Some cx" and "beam_centre_j self = Some cy"
  shows "calculate_beam_distance self h v = Inr ((cx - h, cy - v), self)
       \<and> calculate_beam_distance self cx cy = Inr ((0, 0), self)
       \<and> calculate_beam_distance self (cx - 3) (cy - 4) = Inr ((3, 4), self)"
  using assms by (simp add: calculate_beam_distance_def)

text \<open>Claim C9 on the example object, whose beam centre is \<open>(517, 350)\<close>.\<close>

theorem calculate_beam_distance_affine_witness:
  "beam_centre_i example_object = Some 517 \<and> beam_centre_j example_object = Some 350
   \<and> calculate_beam_distance example_object 500 300 = Inr ((17, 50), example_object)
   \<and> calculate_beam_distance example_object 517 350 = Inr ((0, 0), example_object)
   \<and> calculate_beam_distance example_object 514 346 = Inr ((3, 4), example_object)"
proof -
  have i: "beam_centre_i example_object = Some 517"
    by (simp add: example_object_def)
  have j: "beam_centre_j example_object = Some 350"
    by (simp add: example_object_def)
  show ?thesis
    using i j calculate_beam_distance_affine [OF i j, of 500 300] by simp
qed

end
